theory Spec2Isabelle
  imports Main "HOL-Library.Product_Lexorder" "HOL-Library.List_Lexorder" "HOL-Library.Char_ord"
begin

section \<open>Strings\<close>

text \<open>
  JavaScript strings are modelled as HOL strings. The string methods the validators call
  are modelled on the ASCII range: \<open>trim\<close> strips the ASCII members of the ECMAScript
  white-space and line-terminator sets (TAB, LF, VT, FF, CR, SPACE), \<open>toLowerCase\<close>
  maps \<open>A\<close>..\<open>Z\<close> to \<open>a\<close>..\<open>z\<close>, and every other character is left alone.
\<close>

definition isSpace :: "char \<Rightarrow> bool" where
  "isSpace c = (c \<in> set [CHR 0x09, CHR 0x0A, CHR 0x0B, CHR 0x0C, CHR 0x0D, CHR 0x20])"

definition trim :: "string \<Rightarrow> string" where
  "trim s = rev (dropWhile isSpace (rev (dropWhile isSpace s)))"

definition lowerChar :: "char \<Rightarrow> char" where
  "lowerChar c =
     (case map_of (zip ''ABCDEFGHIJKLMNOPQRSTUVWXYZ'' ''abcdefghijklmnopqrstuvwxyz'') c of
        None \<Rightarrow> c
      | Some d \<Rightarrow> d)"

definition toLowerCase :: "string \<Rightarrow> string" where
  "toLowerCase s = map lowerChar s"

definition isDigit :: "char \<Rightarrow> bool" where
  "isDigit c = (c \<in> set ''0123456789'')"

definition isHexDigit :: "char \<Rightarrow> bool" where
  "isHexDigit c = (c \<in> set ''0123456789abcdefABCDEF'')"

definition isLowerAlnum :: "char \<Rightarrow> bool" where
  "isLowerAlnum c = (c \<in> set ''abcdefghijklmnopqrstuvwxyz0123456789'')"

definition isIdentChar :: "char \<Rightarrow> bool" where
  "isIdentChar c =
     (c \<in> set ''0123456789ABCDEFGHIJKLMNOPQRSTUVWXYZabcdefghijklmnopqrstuvwxyz-'')"

text \<open>\<open>s.split(c)\<close> for a one-character separator: the empty string splits to one
  empty piece, and adjacent separators give empty pieces.\<close>

fun splitOn :: "char \<Rightarrow> string \<Rightarrow> string list" where
  "splitOn c [] = [[]]"
| "splitOn c (x # xs) =
     (if x = c then [] # splitOn c xs
      else (case splitOn c xs of
              [] \<Rightarrow> [[x]]
            | y # ys \<Rightarrow> (x # y) # ys))"

text \<open>\<open>parts.join(sep)\<close>.\<close>

fun joinWith :: "string \<Rightarrow> string list \<Rightarrow> string" where
  "joinWith sep [] = []"
| "joinWith sep [x] = x"
| "joinWith sep (x # y # ys) = x @ sep @ joinWith sep (y # ys)"

definition startsWith :: "string \<Rightarrow> string \<Rightarrow> bool" where
  "startsWith s p = (take (length p) s = p)"

definition endsWith :: "string \<Rightarrow> string \<Rightarrow> bool" where
  "endsWith s p = (length p \<le> length s \<and> drop (length s - length p) s = p)"

text \<open>The relational operator \<open><\<close> on two strings: code units are compared from the
  left, and a proper prefix is smaller.\<close>

fun strLess :: "string \<Rightarrow> string \<Rightarrow> bool" where
  "strLess [] [] = False"
| "strLess [] (y # ys) = True"
| "strLess (x # xs) [] = False"
| "strLess (x # xs) (y # ys) =
     (if x = y then strLess xs ys else (of_char x :: nat) < of_char y)"

text \<open>The double quote inside a message.\<close>

definition dq :: string where
  "dq = [CHR 0x22]"

text \<open>Decimal rendering of an index or a count inside a template literal.\<close>

definition digitChar :: "nat \<Rightarrow> char" where
  "digitChar d = ''0123456789'' ! (d mod 10)"

fun showNat :: "nat \<Rightarrow> string" where
  "showNat n = (if n < 10 then [digitChar n] else showNat (n div 10) @ [digitChar n])"

declare showNat.simps [simp del]

section \<open>Semantic versions (\<open>scripts/_lib.mjs\<close>)\<close>

text \<open>
  \<open>Number(digits)\<close> yields a double. On a string of decimal digits the result is the
  non-negative integer nearest to the decimal value among the doubles (ties to the even
  significand), or \<open>Infinity\<close> from \<open>2^1024 - 2^970\<close> on. Only these values occur
  in the comparison, so the model keeps the exact integer of a finite result.
\<close>

datatype jsnumber = Finite int | PosInfinity

function bitlen :: "int \<Rightarrow> nat" where
  "bitlen n = (if n \<le> 0 then 0 else Suc (bitlen (n div 2)))"
  by pat_completeness auto
termination
  by (relation "measure nat") auto

declare bitlen.simps [simp del]

definition toDouble :: "int \<Rightarrow> jsnumber" where
  "toDouble n =
     (if n < 2 ^ 53 then Finite n
      else
        let e = bitlen n - 53;
            q = n div 2 ^ e;
            r = n mod 2 ^ e;
            half = 2 ^ (e - 1);
            q' = (if half < r \<or> (r = half \<and> odd q) then q + 1 else q)
        in if 2 ^ 1024 \<le> q' * 2 ^ e then PosInfinity else Finite (q' * 2 ^ e))"

definition digitValue :: "char \<Rightarrow> int" where
  "digitValue c = (of_char c :: int) - 48"

definition decimalValue :: "string \<Rightarrow> int" where
  "decimalValue s = foldl (\<lambda>acc c. 10 * acc + digitValue c) 0 s"

definition numberOf :: "string \<Rightarrow> jsnumber" where
  "numberOf s = toDouble (decimalValue s)"

text \<open>The sign of \<open>a - b\<close> on these doubles; \<open>Infinity - Infinity\<close> is \<open>NaN\<close>
  (\<open>None\<close>).\<close>

fun diffSign :: "jsnumber \<Rightarrow> jsnumber \<Rightarrow> int option" where
  "diffSign (Finite x) (Finite y) = Some (if x = y then 0 else if y < x then 1 else -1)"
| "diffSign PosInfinity (Finite y) = Some 1"
| "diffSign (Finite x) PosInfinity = Some (-1)"
| "diffSign PosInfinity PosInfinity = None"

fun numGreater :: "jsnumber \<Rightarrow> jsnumber \<Rightarrow> bool" where
  "numGreater (Finite x) (Finite y) = (y < x)"
| "numGreater PosInfinity (Finite y) = True"
| "numGreater _ PosInfinity = False"

definition normalizeSemver :: "string \<Rightarrow> string" where
  "normalizeSemver version =
     (let v = trim version
      in if v = [] then []
         else if startsWith v ''v'' \<or> startsWith v ''V'' then drop 1 v
         else v)"

text \<open>
  \<open>SEMVER_RE\<close>:
  \<^verbatim>\<open>^(0|[1-9]\d*)\.(0|[1-9]\d*)\.(0|[1-9]\d*)(?:-(ID(?:\.ID)*))?(?:\+(ID(?:\.ID)*))?$\<close>
  with \<open>ID = [0-9A-Za-z-]+\<close>. The three numbers hold digits only, so the numeric core
  ends at the first \<open>-\<close> or \<open>+\<close>; a prerelease cannot hold \<open>+\<close>, so it ends at the
  first \<open>+\<close>. \<open>semverExec\<close> returns the capture groups 1 to 4.
\<close>

definition isNumericPart :: "string \<Rightarrow> bool" where
  "isNumericPart s = (s \<noteq> [] \<and> list_all isDigit s \<and> (s = ''0'' \<or> hd s \<noteq> CHR ''0''))"

definition isIdentifier :: "string \<Rightarrow> bool" where
  "isIdentifier s = (s \<noteq> [] \<and> list_all isIdentChar s)"

definition isDottedIdentifiers :: "string \<Rightarrow> bool" where
  "isDottedIdentifiers s = list_all isIdentifier (splitOn (CHR ''.'') s)"

definition isCoreChar :: "char \<Rightarrow> bool" where
  "isCoreChar c = (c \<notin> set ''-+'')"

definition notPlus :: "char \<Rightarrow> bool" where
  "notPlus c = (c \<notin> set ''+'')"

definition semverExec :: "string \<Rightarrow> (string \<times> string \<times> string \<times> string option) option" where
  "semverExec v =
     (case splitOn (CHR ''.'') (takeWhile isCoreChar v) of
        [ma, mi, pa] \<Rightarrow>
          if isNumericPart ma \<and> isNumericPart mi \<and> isNumericPart pa then
            (case dropWhile isCoreChar v of
               [] \<Rightarrow> Some (ma, mi, pa, None)
             | c # rest \<Rightarrow>
                 if c = CHR ''-'' then
                   (let p = takeWhile notPlus rest; b = dropWhile notPlus rest
                    in if isDottedIdentifiers p \<and> (b = [] \<or> isDottedIdentifiers (drop 1 b))
                       then Some (ma, mi, pa, Some p) else None)
                 else if isDottedIdentifiers rest then Some (ma, mi, pa, None) else None)
          else None
      | _ \<Rightarrow> None)"

definition isSemver :: "string \<Rightarrow> bool" where
  "isSemver version = (semverExec (normalizeSemver version) \<noteq> None)"

record semver =
  major :: jsnumber
  minor :: jsnumber
  patch :: jsnumber
  pre :: "string list"

definition parseSemver :: "string \<Rightarrow> semver option" where
  "parseSemver version =
     (case semverExec (normalizeSemver version) of
        None \<Rightarrow> None
      | Some (ma, mi, pa, p) \<Rightarrow>
          Some \<lparr>major = numberOf ma, minor = numberOf mi, patch = numberOf pa,
                pre = (case p of None \<Rightarrow> [] | Some s \<Rightarrow> splitOn (CHR ''.'') s)\<rparr>)"

definition isNumericIdentifier :: "string \<Rightarrow> bool" where
  "isNumericIdentifier s = (s \<noteq> [] \<and> list_all isDigit s)"

definition compareIdentifiers :: "string \<Rightarrow> string \<Rightarrow> int" where
  "compareIdentifiers a b =
     (let aNum = isNumericIdentifier a; bNum = isNumericIdentifier b
      in if aNum \<and> bNum then
           (case diffSign (numberOf a) (numberOf b) of
              None \<Rightarrow> -1
            | Some d \<Rightarrow> (if d = 0 then 0 else if 0 < d then 1 else -1))
         else if aNum \<and> \<not> bNum then -1
         else if \<not> aNum \<and> bNum then 1
         else if a = b then 0
         else if strLess b a then 1 else -1)"

text \<open>The loop over the two prerelease arrays: a missing element is \<open>undefined\<close>.\<close>

fun comparePre :: "string list \<Rightarrow> string list \<Rightarrow> int" where
  "comparePre [] [] = 0"
| "comparePre [] (b # bs) = -1"
| "comparePre (a # as) [] = 1"
| "comparePre (a # as) (b # bs) =
     (let cmp = compareIdentifiers a b in if cmp \<noteq> 0 then cmp else comparePre as bs)"

fun compareParsed :: "semver \<Rightarrow> semver \<Rightarrow> int" where
  "compareParsed pa pb =
     (if major pa \<noteq> major pb then (if numGreater (major pa) (major pb) then 1 else -1)
      else if minor pa \<noteq> minor pb then (if numGreater (minor pa) (minor pb) then 1 else -1)
      else if patch pa \<noteq> patch pb then (if numGreater (patch pa) (patch pb) then 1 else -1)
      else if pre pa = [] \<and> pre pb = [] then 0
      else if pre pa = [] then 1
      else if pre pb = [] then -1
      else comparePre (pre pa) (pre pb))"

fun compareSemver :: "string \<Rightarrow> string \<Rightarrow> int option" where
  "compareSemver a b =
     (case (parseSemver a, parseSemver b) of
        (Some pa, Some pb) \<Rightarrow> Some (compareParsed pa pb)
      | _ \<Rightarrow> None)"

declare compareSemver.simps [simp del]

subsection \<open>Ranks for the order of versions\<close>

text \<open>
  The proofs about \<open>compareSemver\<close> rank a parsed version in a linear order: numbers
  with \<open>Infinity\<close> on top, an identifier as numeric (lower) or not, a release above its
  prereleases, and the prerelease identifiers in sequence. An identifier is finite when
  it is not a numeric one that converts to \<open>Infinity\<close>; a version string is finite when
  it parses and all its prerelease identifiers are.
\<close>

fun numKey :: "jsnumber \<Rightarrow> bool \<times> int" where
  "numKey (Finite n) = (False, n)"
| "numKey PosInfinity = (True, 0)"

definition identKey :: "string \<Rightarrow> bool \<times> (bool \<times> int) \<times> string" where
  "identKey s =
     (if isNumericIdentifier s then (False, numKey (numberOf s), [])
      else (True, (False, 0), s))"

definition verKey ::
  "semver \<Rightarrow> (bool \<times> int) \<times> (bool \<times> int) \<times> (bool \<times> int) \<times> bool \<times> (bool \<times> (bool \<times> int) \<times> string) list" where
  "verKey p = (numKey (major p), numKey (minor p), numKey (patch p), pre p = [],
               map identKey (pre p))"

definition cmp3 :: "'a::linorder \<Rightarrow> 'a \<Rightarrow> int" where
  "cmp3 x y = (if x < y then -1 else if x = y then 0 else 1)"

definition finiteId :: "string \<Rightarrow> bool" where
  "finiteId s = (numberOf s \<noteq> PosInfinity \<or> \<not> isNumericIdentifier s)"

definition finiteSemver :: "string \<Rightarrow> bool" where
  "finiteSemver v = (case parseSemver v of None \<Rightarrow> False | Some p \<Rightarrow> list_all finiteId (pre p))"

section \<open>JSON documents and issues\<close>

text \<open>
  A document is the value \<open>JSON.parse\<close> returned. Of a number the validators only ask
  \<open>Number.isInteger\<close>, its sign and its truthiness, so a number is an integral value or
  some other (non-zero, possibly infinite) value. An object is the list of its members;
  a member access reads the first member of that name and is \<open>undefined\<close> (\<open>None\<close>)
  when there is none, as it is on an array, a string, a number or a boolean for every
  name the validators read.
\<close>

datatype jnum = Integral int | NonIntegral

datatype json =
    JNull
  | JBool bool
  | JNum jnum
  | JStr string
  | JArr "json list"
  | JObj "(string \<times> json) list"

fun getProp :: "json \<Rightarrow> string \<Rightarrow> json option" where
  "getProp (JObj members) k = map_of members k"
| "getProp _ k = None"

text \<open>\<open>a?.k\<close> on a value that may be \<open>undefined\<close>.\<close>

fun getPropOpt :: "json option \<Rightarrow> string \<Rightarrow> json option" where
  "getPropOpt None k = None"
| "getPropOpt (Some v) k = getProp v k"

fun truthy :: "json \<Rightarrow> bool" where
  "truthy JNull = False"
| "truthy (JBool b) = b"
| "truthy (JNum (Integral i)) = (i \<noteq> 0)"
| "truthy (JNum NonIntegral) = True"
| "truthy (JStr s) = (s \<noteq> [])"
| "truthy (JArr xs) = True"
| "truthy (JObj members) = True"

fun truthyOpt :: "json option \<Rightarrow> bool" where
  "truthyOpt None = False"
| "truthyOpt (Some v) = truthy v"

text \<open>\<open>typeof v === 'object'\<close>: \<open>null\<close> and arrays are objects too.\<close>

fun typeofObject :: "json \<Rightarrow> bool" where
  "typeofObject JNull = True"
| "typeofObject (JArr xs) = True"
| "typeofObject (JObj members) = True"
| "typeofObject _ = False"

fun isArray :: "json \<Rightarrow> bool" where
  "isArray (JArr xs) = True"
| "isArray _ = False"

fun isString :: "json \<Rightarrow> bool" where
  "isString (JStr s) = True"
| "isString _ = False"

text \<open>\<open>!v || typeof v !== 'object' || Array.isArray(v)\<close>\<close>

definition notPlainObject :: "json \<Rightarrow> bool" where
  "notPlainObject v = (\<not> truthy v \<or> \<not> typeofObject v \<or> isArray v)"

text \<open>\<open>!v || typeof v !== 'object'\<close>\<close>

definition notObject :: "json option \<Rightarrow> bool" where
  "notObject v = (case v of None \<Rightarrow> True | Some x \<Rightarrow> \<not> truthy x \<or> \<not> typeofObject x)"

text \<open>\<open>typeof v === 'string' ? v.trim() : ''\<close>\<close>

fun trimmedString :: "json option \<Rightarrow> string" where
  "trimmedString (Some (JStr s)) = trim s"
| "trimmedString _ = []"

text \<open>\<open>typeof v !== 'string' || !v.trim()\<close>\<close>

fun blankOrNoString :: "json option \<Rightarrow> bool" where
  "blankOrNoString (Some (JStr s)) = (trim s = [])"
| "blankOrNoString _ = True"

text \<open>\<open>!Number.isInteger(v) || v <= 0\<close>\<close>

fun notPositiveInteger :: "json option \<Rightarrow> bool" where
  "notPositiveInteger (Some (JNum (Integral i))) = (i \<le> 0)"
| "notPositiveInteger _ = True"

datatype level = Error | Warn | Info

record issue =
  level :: level
  message :: string

definition addIssue :: "issue list \<Rightarrow> level \<Rightarrow> string \<Rightarrow> issue list" where
  "addIssue issues lvl msg = issues @ [\<lparr>level = lvl, message = msg\<rparr>]"

text \<open>\<open>if (c) addIssue(issues, lvl, msg);\<close>\<close>

definition addIssueWhen :: "bool \<Rightarrow> issue list \<Rightarrow> level \<Rightarrow> string \<Rightarrow> issue list" where
  "addIssueWhen c issues lvl msg = (if c then addIssue issues lvl msg else issues)"

text \<open>The issue that \<open>addIssueWhen\<close> appends, as a list of at most one.\<close>

definition issueWhen :: "bool \<Rightarrow> level \<Rightarrow> string \<Rightarrow> issue list" where
  "issueWhen c lvl msg = (if c then [\<lparr>level = lvl, message = msg\<rparr>] else [])"

text \<open>\<open>strictMode ? 'warn' : 'info'\<close>\<close>

definition advisory :: "bool \<Rightarrow> level" where
  "advisory strictMode = (if strictMode then Warn else Info)"

text \<open>What a validator can throw: \<open>decodeURIComponent\<close> on a malformed escape,
  \<open>path.join\<close> on an argument that is not a string, and a file-system call on a path
  that is not there.\<close>

datatype error = URIError | TypeError | IOError

section \<open>The host: URL, Date, collation\<close>

text \<open>
  The platform functions whose result the model does not compute are parameters:
  \<open>dateParses s\<close> is \<open>!Number.isNaN(new Date(s).getTime())\<close>, \<open>urlPathname s\<close> is
  \<open>new URL(s).pathname\<close> (\<open>None\<close> when the constructor throws, which \<open>safeUrl\<close>
  catches), and \<open>localeCompare a b\<close> is \<open>a.localeCompare(b)\<close>.
\<close>

record host =
  dateParses :: "string \<Rightarrow> bool"
  urlPathname :: "string \<Rightarrow> string option"
  localeCompare :: "string \<Rightarrow> string \<Rightarrow> int"

text \<open>\<open>xs.sort((a, b) => cmp(a, b))\<close>: the sort is stable.\<close>

fun insertBy :: "('a \<Rightarrow> 'a \<Rightarrow> int) \<Rightarrow> 'a \<Rightarrow> 'a list \<Rightarrow> 'a list" where
  "insertBy cmp x [] = [x]"
| "insertBy cmp x (y # ys) = (if cmp x y \<le> 0 then x # y # ys else y # insertBy cmp x ys)"

definition sortBy :: "('a \<Rightarrow> 'a \<Rightarrow> int) \<Rightarrow> 'a list \<Rightarrow> 'a list" where
  "sortBy cmp xs = foldr (insertBy cmp) xs []"

text \<open>
  \<open>decodeURIComponent\<close> (ECMAScript \<open>Decode\<close> with an empty reserved set): every
  \<open>%\<close> must be followed by two hexadecimal digits, and the escaped octets must be
  well-formed UTF-8; anything else throws \<open>URIError\<close>. The decoded octets of a
  multi-octet sequence stay in the string as they are.
\<close>

datatype token = Lit char | Esc nat

definition hexValue :: "char \<Rightarrow> nat option" where
  "hexValue c =
     map_of (zip ''0123456789abcdefABCDEF''
                 [0, 1, 2, 3, 4, 5, 6, 7, 8, 9, 10, 11, 12, 13, 14, 15, 10, 11, 12, 13, 14, 15]) c"

fun tokenize :: "string \<Rightarrow> token list option" where
  "tokenize [] = Some []"
| "tokenize (c # cs) =
     (if c = CHR ''%'' then
        (case cs of
           h1 # h2 # rest \<Rightarrow>
             (case (hexValue h1, hexValue h2) of
                (Some a, Some b) \<Rightarrow> map_option ((#) (Esc (16 * a + b))) (tokenize rest)
              | _ \<Rightarrow> None)
         | _ \<Rightarrow> None)
      else map_option ((#) (Lit c)) (tokenize cs))"

definition isCont :: "nat \<Rightarrow> bool" where
  "isCont b = (128 \<le> b \<and> b < 192)"

definition secondOk :: "nat \<Rightarrow> nat \<Rightarrow> bool" where
  "secondOk b b2 =
     (if b = 224 then 160 \<le> b2 \<and> b2 < 192
      else if b = 237 then 128 \<le> b2 \<and> b2 < 160
      else if b = 240 then 144 \<le> b2 \<and> b2 < 192
      else if b = 244 then 128 \<le> b2 \<and> b2 < 144
      else isCont b2)"

fun decodeTokens :: "token list \<Rightarrow> string option" where
  "decodeTokens [] = Some []"
| "decodeTokens (Lit c # ts) = map_option ((#) c) (decodeTokens ts)"
| "decodeTokens (Esc b # ts) =
     (if b < 128 then map_option ((#) (char_of b)) (decodeTokens ts)
      else if 194 \<le> b \<and> b < 224 then
        (case ts of
           Esc b2 # r \<Rightarrow>
             if isCont b2 then map_option ((@) [char_of b, char_of b2]) (decodeTokens r)
             else None
         | _ \<Rightarrow> None)
      else if 224 \<le> b \<and> b < 240 then
        (case ts of
           Esc b2 # Esc b3 # r \<Rightarrow>
             if secondOk b b2 \<and> isCont b3
             then map_option ((@) [char_of b, char_of b2, char_of b3]) (decodeTokens r)
             else None
         | _ \<Rightarrow> None)
      else if 240 \<le> b \<and> b < 245 then
        (case ts of
           Esc b2 # Esc b3 # Esc b4 # r \<Rightarrow>
             if secondOk b b2 \<and> isCont b3 \<and> isCont b4
             then map_option ((@) [char_of b, char_of b2, char_of b3, char_of b4])
                    (decodeTokens r)
             else None
         | _ \<Rightarrow> None)
      else None)"

definition decodeURIComponent :: "string \<Rightarrow> error + string" where
  "decodeURIComponent s =
     (case tokenize s of
        None \<Rightarrow> Inl URIError
      | Some ts \<Rightarrow> (case decodeTokens ts of None \<Rightarrow> Inl URIError | Some r \<Rightarrow> Inr r))"

section \<open>Paths (\<open>node:path\<close> on a POSIX platform)\<close>

text \<open>
  \<open>path.posix.normalize\<close> keeps a stack of segments: an empty segment and \<open>.\<close> are
  dropped, \<open>..\<close> removes the segment before it, and where there is none to remove
  (the stack is empty or ends in \<open>..\<close>) it is kept for a relative path and dropped for
  an absolute one.
\<close>

definition isAbsolute :: "string \<Rightarrow> bool" where
  "isAbsolute p = startsWith p ''/''"

definition normalizeStep :: "bool \<Rightarrow> string list \<Rightarrow> string \<Rightarrow> string list" where
  "normalizeStep allowAboveRoot res seg =
     (if seg = [] \<or> seg = ''.'' then res
      else if seg = ''..'' then
        (if res \<noteq> [] \<and> last res \<noteq> ''..'' then butlast res
         else if allowAboveRoot then res @ [''..''] else res)
      else res @ [seg])"

definition normalizeString :: "string \<Rightarrow> bool \<Rightarrow> string list" where
  "normalizeString p allowAboveRoot =
     foldl (normalizeStep allowAboveRoot) [] (splitOn (CHR ''/'') p)"

definition normalizePosix :: "string \<Rightarrow> string" where
  "normalizePosix p =
     (if p = [] then ''.''
      else
        let isAbs = (hd p = CHR ''/'');
            trailingSeparator = (last p = CHR ''/'');
            s = joinWith ''/'' (normalizeString p (\<not> isAbs))
        in if s = [] then (if isAbs then ''/'' else if trailingSeparator then ''./'' else ''.'')
           else (if isAbs then ''/'' else []) @ s @ (if trailingSeparator then ''/'' else []))"

text \<open>\<open>path.join(a, b)\<close>: empty arguments are skipped.\<close>

definition pathJoin :: "string \<Rightarrow> string \<Rightarrow> string" where
  "pathJoin a b =
     (let joined = (if a = [] then b else if b = [] then a else a @ ''/'' @ b)
      in if joined = [] then ''.'' else normalizePosix joined)"

definition isSlash :: "char \<Rightarrow> bool" where
  "isSlash c = (c = CHR ''/'')"

definition notSlash :: "char \<Rightarrow> bool" where
  "notSlash c = (c \<noteq> CHR ''/'')"

text \<open>\<open>path.basename(p)\<close>: the last segment, trailing separators ignored.\<close>

definition basename :: "string \<Rightarrow> string" where
  "basename p = rev (takeWhile notSlash (dropWhile isSlash (rev p)))"

text \<open>\<open>path.posix.basename(p, suffix)\<close> scans \<open>p\<close> from its end, matching the suffix
  on the way; the state is that of Node's loop, which stops at the first separator after
  the last segment.\<close>

record bnState =
  bnStart :: nat
  bnEnd :: int
  matchedSlash :: bool
  extIdx :: int
  firstNonSlashEnd :: int

fun basenameLoop :: "string \<Rightarrow> string \<Rightarrow> nat \<Rightarrow> bnState \<Rightarrow> bnState" where
  "basenameLoop p suffix 0 st = st"
| "basenameLoop p suffix (Suc i) st =
     (if p ! i = CHR ''/'' then
        (if matchedSlash st then basenameLoop p suffix i st else st\<lparr>bnStart := Suc i\<rparr>)
      else
        (let st1 = (if firstNonSlashEnd st = -1
                    then st\<lparr>matchedSlash := False, firstNonSlashEnd := int (Suc i)\<rparr>
                    else st);
             st2 = (if 0 \<le> extIdx st1 then
                      (if p ! i = suffix ! nat (extIdx st1) then
                         (if extIdx st1 = 0 then st1\<lparr>extIdx := -1, bnEnd := int i\<rparr>
                          else st1\<lparr>extIdx := extIdx st1 - 1\<rparr>)
                       else st1\<lparr>extIdx := -1, bnEnd := firstNonSlashEnd st1\<rparr>)
                    else st1)
         in basenameLoop p suffix i st2))"

definition basenameExt :: "string \<Rightarrow> string \<Rightarrow> string" where
  "basenameExt p suffix =
     (if suffix \<noteq> [] \<and> length suffix \<le> length p then
        (if suffix = p then []
         else
           let st = basenameLoop p suffix (length p)
                      \<lparr>bnStart = 0, bnEnd = -1, matchedSlash = True,
                       extIdx = int (length suffix) - 1, firstNonSlashEnd = -1\<rparr>;
               e = (if int (bnStart st) = bnEnd st then firstNonSlashEnd st
                    else if bnEnd st = -1 then int (length p)
                    else bnEnd st)
           in take (nat e - bnStart st) (drop (bnStart st) p))
      else basename p)"

section \<open>The file system\<close>

text \<open>
  A snapshot of the file system: a regular file carries what \<open>sha256FileHex\<close> returns
  for it and what \<open>JSON.parse\<close> makes of its text (\<open>None\<close> when it throws); a directory
  lists its entries in \<open>readdirSync\<close> order; \<open>Other\<close> is an entry that is neither.
  Relative paths start at the working directory. The paths the validators hand to
  \<open>node:fs\<close> come out of \<open>path.join\<close>, hence normalized; a path with a NUL character
  names nothing, and a trailing separator names a directory only.
\<close>

datatype node = File string "json option" | Dir "(string \<times> node) list" | Other

record fsys =
  root :: node
  cwd :: "string list"

fun lookupNode :: "node \<Rightarrow> string list \<Rightarrow> node option" where
  "lookupNode n [] = Some n"
| "lookupNode (Dir entries) (s # ss) =
     (case map_of entries s of None \<Rightarrow> None | Some n \<Rightarrow> lookupNode n ss)"
| "lookupNode _ (s # ss) = None"

definition absoluteSegments :: "fsys \<Rightarrow> string \<Rightarrow> string list" where
  "absoluteSegments fs p =
     foldl (normalizeStep False) []
       ((if isAbsolute p then [] else cwd fs) @ splitOn (CHR ''/'') p)"

definition stat :: "fsys \<Rightarrow> string \<Rightarrow> node option" where
  "stat fs p =
     (if p = [] \<or> CHR 0x00 \<in> set p then None
      else
        (case lookupNode (root fs) (absoluteSegments fs p) of
           None \<Rightarrow> None
         | Some (Dir entries) \<Rightarrow> Some (Dir entries)
         | Some n \<Rightarrow> (if last p = CHR ''/'' then None else Some n)))"

definition existsSync :: "fsys \<Rightarrow> string \<Rightarrow> bool" where
  "existsSync fs p = (stat fs p \<noteq> None)"

definition isFile :: "fsys \<Rightarrow> string \<Rightarrow> bool" where
  "isFile fs p = (case stat fs p of Some (File digest parsed) \<Rightarrow> True | _ \<Rightarrow> False)"


text \<open>\<open>!fs.existsSync(p) || !fs.statSync(p).isFile()\<close> and its directory twin.\<close>

definition notRegularFile :: "fsys \<Rightarrow> string \<Rightarrow> bool" where
  "notRegularFile fs p = (\<not> existsSync fs p \<or> \<not> isFile fs p)"


text \<open>\<open>readJson\<close> throws (\<open>None\<close>) when the file cannot be read or parsed.\<close>

definition readJson :: "fsys \<Rightarrow> string \<Rightarrow> json option" where
  "readJson fs p = (case stat fs p of Some (File digest parsed) \<Rightarrow> parsed | _ \<Rightarrow> None)"

definition sha256FileHex :: "fsys \<Rightarrow> string \<Rightarrow> string option" where
  "sha256FileHex fs p = (case stat fs p of Some (File digest parsed) \<Rightarrow> Some digest | _ \<Rightarrow> None)"


fun walk :: "node \<Rightarrow> string \<Rightarrow> string list" where
  "walk (Dir entries) relDir =
     concat (map (\<lambda>(name, n).
        (let rel = (if relDir \<noteq> [] then pathJoin relDir name else name)
         in case n of
              Dir sub \<Rightarrow> walk n rel
            | File digest parsed \<Rightarrow> [rel]
            | Other \<Rightarrow> [])) entries)"
| "walk _ relDir = []"

definition listFilesRecursive :: "host \<Rightarrow> fsys \<Rightarrow> string \<Rightarrow> error + string list" where
  "listFilesRecursive h fs rootDir =
     (case stat fs rootDir of
        Some (Dir entries) \<Rightarrow> Inr (sortBy (localeCompare h) (walk (Dir entries) []))
      | _ \<Rightarrow> Inl IOError)"

section \<open>Identifier guards (\<open>scripts/_lib.mjs\<close>)\<close>

definition isUuid :: "string \<Rightarrow> bool" where
  "isUuid value =
     (case splitOn (CHR ''-'') (trim value) of
        [a, b, c, d, e] \<Rightarrow>
          length a = 8 \<and> length b = 4 \<and> length c = 4 \<and> length d = 4 \<and> length e = 12 \<and>
          list_all isHexDigit (a @ b @ c @ d @ e) \<and>
          hd c \<in> set ''12345'' \<and> hd d \<in> set ''89abAB''
      | _ \<Rightarrow> False)"

fun strIncludes :: "string \<Rightarrow> string \<Rightarrow> bool" where
  "strIncludes [] sub = (sub = [])"
| "strIncludes (c # cs) sub = (startsWith (c # cs) sub \<or> strIncludes cs sub)"

definition isSafeRelativePath :: "string \<Rightarrow> bool" where
  "isSafeRelativePath relPath =
     (let raw = trim relPath
      in if raw = [] then False
         else if CHR 0x00 \<in> set raw then False
         else if CHR 0x5C \<in> set raw then False
         else if isAbsolute raw then False
         else
           (let normalized = normalizePosix raw
            in if normalized = ''.'' \<or> startsWith normalized ''..'' \<or>
                  strIncludes normalized ''/../'' then False
               else if startsWith normalized ''/'' then False
               else True))"

section \<open>The pack validator (\<open>scripts/validate-pack.mjs\<close>)\<close>

text \<open>\<open>for (const [i, x] of xs.entries())\<close> over an accumulator.\<close>

fun forEachIndexed :: "(nat \<Rightarrow> 'a \<Rightarrow> 's \<Rightarrow> 's) \<Rightarrow> nat \<Rightarrow> 'a list \<Rightarrow> 's \<Rightarrow> 's" where
  "forEachIndexed body i [] st = st"
| "forEachIndexed body i (x # xs) st = forEachIndexed body (Suc i) xs (body i x st)"

text \<open>\<open>v && typeof v[k] === 'string'\<close>, giving the string.\<close>

definition stringProp :: "json option \<Rightarrow> string \<Rightarrow> string option" where
  "stringProp v k =
     (if truthyOpt v then (case getPropOpt v k of Some (JStr s) \<Rightarrow> Some s | _ \<Rightarrow> None)
      else None)"

text \<open>\<open>typeof v !== 'string' || !/^[a-fA-F0-9]{64}$/.test(v)\<close>\<close>

fun notHex64 :: "json option \<Rightarrow> bool" where
  "notHex64 (Some (JStr s)) = (\<not> (length s = 64 \<and> list_all isHexDigit s))"
| "notHex64 _ = True"

text \<open>\<open>typeof v === 'string' && isUuid(v)\<close>, giving the string.\<close>

fun uuidString :: "json option \<Rightarrow> string option" where
  "uuidString (Some (JStr s)) = (if isUuid s then Some s else None)"
| "uuidString _ = None"

text \<open>\<open>!Array.isArray(v) || !v.every((tag) => typeof tag === 'string')\<close>\<close>

fun notStringArray :: "json option \<Rightarrow> bool" where
  "notStringArray (Some (JArr xs)) = (\<not> list_all isString xs)"
| "notStringArray _ = True"

text \<open>\<open>typeof v !== 'string' || !COLOR_REGEX.test(v)\<close> with
  \<open>COLOR_REGEX = /^#[0-9a-f]{6}$/i\<close>.\<close>

fun notColor :: "json \<Rightarrow> bool" where
  "notColor (JStr s) = (\<not> (length s = 7 \<and> hd s = CHR ''#'' \<and> list_all isHexDigit (tl s)))"
| "notColor _ = True"

definition validateCommandShape :: "json \<Rightarrow> issue list \<Rightarrow> string \<Rightarrow> issue list" where
  "validateCommandShape command issues0 prefix =
     (if notPlainObject command then addIssue issues0 Error (prefix @ '' must be an object.'')
      else
        (let issues1 = addIssueWhen (uuidString (getProp command ''id'') = None) issues0 Error
               (prefix @ ''.id must be a UUID string.'');
             issues2 = addIssueWhen (blankOrNoString (getProp command ''label'')) issues1 Error
               (prefix @ ''.label must be a non-empty string.'');
             issues3 = addIssueWhen (blankOrNoString (getProp command ''command'')) issues2 Error
               (prefix @ ''.command must be a non-empty string.'');
             issues4 = addIssueWhen (stringProp (Some command) ''description'' = None) issues3
               Error (prefix @ ''.description must be a string (may be empty).'');
             issues5 = addIssueWhen (notStringArray (getProp command ''tags'')) issues4 Error
               (prefix @ ''.tags must be an array of strings.'');
             issues6 =
               (case getProp command ''color'' of
                  None \<Rightarrow> issues5
                | Some color \<Rightarrow>
                    addIssueWhen (notColor color) issues5 Error
                      (prefix @ ''.color must be a hex string like #3b82f6.''))
         in issues6))"

text \<open>The state of the loop in \<open>validateProfile\<close>.\<close>

record profileState =
  pIssues :: "issue list"
  commandIds :: "string set"
  seenIds :: "string set"

definition profileCommand :: "string \<Rightarrow> nat \<Rightarrow> json \<Rightarrow> profileState \<Rightarrow> profileState" where
  "profileCommand profilePath index command st =
     (let prefix = basename profilePath @ ''['' @ showNat index @ '']'';
          issues1 = validateCommandShape command (pIssues st) prefix
      in if typeofObject command then
           (case stringProp (Some command) ''id'' of
              None \<Rightarrow> st\<lparr>pIssues := issues1\<rparr>
            | Some ident \<Rightarrow>
                \<lparr>pIssues = addIssueWhen (ident \<in> seenIds st) issues1 Error
                             (''Duplicate command id in profile: '' @ ident),
                 commandIds = (if isUuid ident then insert ident (commandIds st)
                               else commandIds st),
                 seenIds = insert ident (seenIds st)\<rparr>)
         else st\<lparr>pIssues := issues1\<rparr>)"

definition validateProfile :: "fsys \<Rightarrow> string \<Rightarrow> issue list \<Rightarrow> issue list \<times> string set" where
  "validateProfile fs profilePath issues =
     (case readJson fs profilePath of
        None \<Rightarrow> (addIssue issues Error (''Profile is not valid JSON: '' @ profilePath), {})
      | Some (JArr commands) \<Rightarrow>
          (let st = forEachIndexed (profileCommand profilePath) 0 commands
                      \<lparr>pIssues = issues, commandIds = {}, seenIds = {}\<rparr>
           in (pIssues st, commandIds st))
      | Some other \<Rightarrow>
          (addIssue issues Error (''Profile must be a JSON array: '' @ profilePath), {}))"

text \<open>Lines 122 to 140 of \<open>validateManifestFile\<close>.\<close>

definition checkManifestHeader :: "string \<Rightarrow> json \<Rightarrow> issue list \<Rightarrow> issue list" where
  "checkManifestHeader manifestPath manifest issues0 =
     (let issues1 = addIssueWhen (notPositiveInteger (getProp manifest ''schemaVersion'')) issues0
            Error (''manifest.schemaVersion must be a positive integer: '' @ manifestPath);
          issues2 = addIssueWhen (blankOrNoString (getProp manifest ''packId'')) issues1 Error
            (''manifest.packId is required: '' @ manifestPath);
          issues3 = addIssueWhen (blankOrNoString (getProp manifest ''version'')) issues2 Error
            (''manifest.version is required: '' @ manifestPath);
          profile = getProp manifest ''profile''
      in if notObject profile
         then addIssue issues3 Error (''manifest.profile is required: '' @ manifestPath)
         else
           (let issues4 = addIssueWhen (blankOrNoString (getPropOpt profile ''file'')) issues3
                  Error (''manifest.profile.file is required: '' @ manifestPath);
                issues5 = addIssueWhen (notHex64 (getPropOpt profile ''sha256'')) issues4 Error
                  (''manifest.profile.sha256 must be a 64-hex string: '' @ manifestPath)
            in issues5))"

text \<open>Lines 143 to 155: one asset.\<close>

definition checkAsset :: "string \<Rightarrow> nat \<Rightarrow> json \<Rightarrow> issue list \<Rightarrow> issue list" where
  "checkAsset manifestPath i asset issues0 =
     (let prefix = ''manifest.assets['' @ showNat i @ '']''
      in if notObject (Some asset)
         then addIssue issues0 Error (prefix @ '' must be an object: '' @ manifestPath)
         else
           (let issues1 = addIssueWhen (blankOrNoString (getProp asset ''file'')) issues0 Error
                  (prefix @ ''.file is required: '' @ manifestPath);
                issues2 = addIssueWhen (notHex64 (getProp asset ''sha256'')) issues1 Error
                  (prefix @ ''.sha256 must be a 64-hex string: '' @ manifestPath)
            in issues2))"

text \<open>Lines 158 to 184: one graph; the file-name advice is given in strict mode only.\<close>

definition graphNameMismatch :: "bool \<Rightarrow> json \<Rightarrow> (string \<times> string) option" where
  "graphNameMismatch strictMode graph =
     (if strictMode then
        (case (stringProp (Some graph) ''file'', uuidString (getProp graph ''commandId'')) of
           (Some file, Some commandId) \<Rightarrow>
             (if basenameExt file ''.json'' \<noteq> commandId then Some (commandId, file) else None)
         | _ \<Rightarrow> None)
      else None)"

definition checkGraph :: "bool \<Rightarrow> string \<Rightarrow> nat \<Rightarrow> json \<Rightarrow> issue list \<Rightarrow> issue list" where
  "checkGraph strictMode manifestPath i graph issues0 =
     (let prefix = ''manifest.graphs['' @ showNat i @ '']''
      in if notObject (Some graph)
         then addIssue issues0 Error (prefix @ '' must be an object: '' @ manifestPath)
         else
           (let issues1 = addIssueWhen (uuidString (getProp graph ''commandId'') = None) issues0
                  Error (prefix @ ''.commandId must be a UUID string: '' @ manifestPath);
                issues2 = addIssueWhen (blankOrNoString (getProp graph ''file'')) issues1 Error
                  (prefix @ ''.file is required: '' @ manifestPath);
                issues3 = addIssueWhen (notHex64 (getProp graph ''sha256'')) issues2 Error
                  (prefix @ ''.sha256 must be a 64-hex string: '' @ manifestPath)
            in case graphNameMismatch strictMode graph of
                 None \<Rightarrow> issues3
               | Some (commandId, file) \<Rightarrow>
                   addIssue issues3 Warn
                     (''Graph filename should match commandId ('' @ commandId @ '') but got '' @
                      file)))"

text \<open>Lines 192 to 202: \<open>addRef\<close> on the issues and the set \<open>referencedFiles\<close>.\<close>

definition addRef :: "json option \<Rightarrow> string \<Rightarrow> issue list \<times> string set \<Rightarrow> issue list \<times> string set" where
  "addRef ref context st =
     (case stringProp ref ''file'' of
        None \<Rightarrow> st
      | Some file \<Rightarrow>
          (let rel = trim file
           in if rel = [] then st
              else if isSafeRelativePath rel then (fst st, insert rel (snd st))
              else (addIssue (fst st) Error
                      (''Unsafe referenced path in manifest ('' @ context @ ''): '' @ rel),
                    snd st)))"

definition addRefs :: "json option \<Rightarrow> json list \<Rightarrow> json list \<Rightarrow> issue list \<Rightarrow> issue list \<times> string set" where
  "addRefs profile assets graphs issues =
     foldl (\<lambda>st graph. addRef (Some graph) ''graph'' st)
       (foldl (\<lambda>st asset. addRef (Some asset) ''asset'' st)
          (addRef profile ''profile'' (issues, {})) assets)
       graphs"

text \<open>Lines 214 to 229: the existence and hash check of one reference.\<close>

definition verifyRef :: "fsys \<Rightarrow> string \<Rightarrow> string \<Rightarrow> json option \<Rightarrow> issue list \<Rightarrow> error + issue list" where
  "verifyRef fs versionDir kind ref issues =
     (case (stringProp ref ''file'', stringProp ref ''sha256'') of
        (Some file, Some sha256) \<Rightarrow>
          (let rel = trim file
           in if rel = [] then Inr issues
              else
                (let abs = pathJoin versionDir rel
                 in if notRegularFile fs abs
                    then Inr (addIssue issues Error
                                (''Manifest references missing '' @ kind @ '' file: '' @ abs))
                    else
                      (case sha256FileHex fs abs of
                         None \<Rightarrow> Inl IOError
                       | Some digest \<Rightarrow>
                           Inr (addIssueWhen (toLowerCase digest \<noteq> toLowerCase sha256) issues
                                  Error (''SHA256 mismatch for '' @ kind @ '' file: '' @ rel)))))
      | _ \<Rightarrow> Inr issues)"

fun verifyRefs :: "fsys \<Rightarrow> string \<Rightarrow> string \<Rightarrow> json option list \<Rightarrow> issue list \<Rightarrow> error + issue list" where
  "verifyRefs fs versionDir kind [] issues = Inr issues"
| "verifyRefs fs versionDir kind (ref # refs) issues =
     (case verifyRef fs versionDir kind ref issues of
        Inl e \<Rightarrow> Inl e
      | Inr issues' \<Rightarrow> verifyRefs fs versionDir kind refs issues')"

definition verifyAll :: "fsys \<Rightarrow> string \<Rightarrow> json option \<Rightarrow> json list \<Rightarrow> json list \<Rightarrow> issue list \<Rightarrow> error + issue list" where
  "verifyAll fs versionDir profile assets graphs issues =
     (case verifyRefs fs versionDir ''profile'' [profile] issues of
        Inl e \<Rightarrow> Inl e
      | Inr issues1 \<Rightarrow>
          (case verifyRefs fs versionDir ''asset'' (map Some assets) issues1 of
             Inl e \<Rightarrow> Inl e
           | Inr issues2 \<Rightarrow> verifyRefs fs versionDir ''graph'' (map Some graphs) issues2))"

text \<open>Lines 233 to 236: \<open>path.join\<close> throws on a \<open>profile.file\<close> that is truthy and
  not a string.\<close>

definition profilePathOf :: "string \<Rightarrow> json \<Rightarrow> error + string option" where
  "profilePathOf versionDir manifest =
     (case getPropOpt (getProp manifest ''profile'') ''file'' of
        None \<Rightarrow> Inr None
      | Some file \<Rightarrow>
          if truthy file
          then (case file of JStr s \<Rightarrow> Inr (Some (pathJoin versionDir s)) | _ \<Rightarrow> Inl TypeError)
          else Inr None)"

definition loadProfile :: "fsys \<Rightarrow> string option \<Rightarrow> issue list \<Rightarrow> issue list \<times> string set" where
  "loadProfile fs profilePath issues =
     (case profilePath of
        None \<Rightarrow> (issues, {})
      | Some p \<Rightarrow> if existsSync fs p then validateProfile fs p issues else (issues, {}))"

text \<open>Lines 238 to 260: one graph against the profile's command ids.\<close>

definition checkGraphLink :: "fsys \<Rightarrow> string \<Rightarrow> string set \<Rightarrow> issue list \<Rightarrow> json \<Rightarrow> issue list" where
  "checkGraphLink fs versionDir cmdIds issues0 graph =
     (if notObject (Some graph) then issues0
      else
        (let issues1 =
               (case uuidString (getProp graph ''commandId'') of
                  None \<Rightarrow> issues0
                | Some commandId \<Rightarrow>
                    addIssueWhen (commandId \<notin> cmdIds) issues0 Error
                      (''Graph commandId not found in profile: '' @ commandId))
         in case stringProp (Some graph) ''file'' of
              None \<Rightarrow> issues1
            | Some file \<Rightarrow>
                (let abs = pathJoin versionDir file
                 in if existsSync fs abs \<and> isFile fs abs then
                      (case readJson fs abs of
                         None \<Rightarrow> addIssue issues1 Error
                                   (''Graph payload is not valid JSON: '' @ abs)
                       | Some parsed \<Rightarrow>
                           addIssueWhen (notPlainObject parsed) issues1 Error
                             (''Graph payload must be a JSON object: '' @ abs))
                    else issues1)))"

text \<open>Lines 263 to 274: the files of the version folder that no safe reference names.\<close>

definition notManifestName :: "string \<Rightarrow> bool" where
  "notManifestName rel = (rel \<noteq> ''manifest.v1.json'')"

definition notDSStore :: "string \<Rightarrow> bool" where
  "notDSStore rel = (rel \<noteq> ''.DS_Store'')"

definition extraFiles :: "string list \<Rightarrow> string set \<Rightarrow> string list" where
  "extraFiles files referencedFiles =
     filter (\<lambda>rel. rel \<notin> referencedFiles) (filter notDSStore (filter notManifestName files))"

definition checkExtras :: "bool \<Rightarrow> string list \<Rightarrow> issue list \<Rightarrow> issue list" where
  "checkExtras strictMode extras issues =
     addIssueWhen (0 < length extras) issues (advisory strictMode)
       (''Version folder contains '' @ showNat (length extras) @ '' unreferenced file(s): '' @
        joinWith '', '' (take 5 extras) @ (if 5 < length extras then '', ...'' else []))"

text \<open>\<open>Array.isArray(v) ? v : []\<close>\<close>

fun arrayOrEmpty :: "json option \<Rightarrow> json list" where
  "arrayOrEmpty (Some (JArr xs)) = xs"
| "arrayOrEmpty _ = []"

text \<open>Lines 122 to 276, once the manifest is known to be an object.\<close>

definition validateManifest ::
  "host \<Rightarrow> fsys \<Rightarrow> string \<Rightarrow> string \<Rightarrow> issue list \<Rightarrow> bool \<Rightarrow> json \<Rightarrow> error + issue list" where
  "validateManifest h fs versionDir manifestPath issues0 strictMode manifest =
     (let assets = arrayOrEmpty (getProp manifest ''assets'');
          graphs = arrayOrEmpty (getProp manifest ''graphs'');
          issues1 = checkManifestHeader manifestPath manifest issues0;
          issues2 = forEachIndexed (checkAsset manifestPath) 0 assets issues1;
          issues3 = forEachIndexed (checkGraph strictMode manifestPath) 0 graphs issues2;
          refs = addRefs (getProp manifest ''profile'') assets graphs issues3
      in case verifyAll fs versionDir (getProp manifest ''profile'') assets graphs (fst refs) of
           Inl e \<Rightarrow> Inl e
         | Inr issues4 \<Rightarrow>
             (case profilePathOf versionDir manifest of
                Inl e \<Rightarrow> Inl e
              | Inr profilePath \<Rightarrow>
                  (let loaded = loadProfile fs profilePath issues4;
                       issues5 = foldl (checkGraphLink fs versionDir (snd loaded)) (fst loaded)
                                   graphs
                   in case listFilesRecursive h fs versionDir of
                        Inl e \<Rightarrow> Inl e
                      | Inr files \<Rightarrow>
                          Inr (checkExtras strictMode (extraFiles files (snd refs)) issues5))))"

fun validateManifestFile ::
  "host \<Rightarrow> fsys \<Rightarrow> string \<Rightarrow> string \<Rightarrow> issue list \<Rightarrow> bool \<Rightarrow> error + issue list \<times> json option" where
  "validateManifestFile h fs versionDir manifestPath issues strictMode =
     (case readJson fs manifestPath of
        None \<Rightarrow>
          Inr (addIssue issues Error (''Manifest is not valid JSON: '' @ manifestPath), None)
      | Some manifest \<Rightarrow>
          if notPlainObject manifest
          then Inr (addIssue issues Error
                      (''Manifest root must be an object: '' @ manifestPath), None)
          else
            (case validateManifest h fs versionDir manifestPath issues strictMode manifest of
               Inl e \<Rightarrow> Inl e
             | Inr issues' \<Rightarrow> Inr (issues', Some manifest)))"

declare validateManifestFile.simps [simp del]

record options =
  strict :: bool
  allVersions :: bool
  version :: "string option"





fun greatest :: "string \<Rightarrow> string list \<Rightarrow> string" where
  "greatest mx [] = mx"
| "greatest mx (raw # rest) =
     greatest (case compareSemver raw mx of
                 None \<Rightarrow> mx
               | Some cmp \<Rightarrow> if 0 < cmp then raw else mx) rest"







section \<open>The catalog validator (\<open>scripts/validate-catalog.mjs\<close>)\<close>

definition normalizePackId :: "string \<Rightarrow> string" where
  "normalizePackId packId = toLowerCase (trim packId)"

definition isSlugChar :: "char \<Rightarrow> bool" where
  "isSlugChar c = (isLowerAlnum c \<or> c = CHR ''-'')"

definition isValidPublisherOrSlug :: "string \<Rightarrow> bool" where
  "isValidPublisherOrSlug value =
     (let v = trim value
      in v \<noteq> [] \<and> length v \<le> 64 \<and> isLowerAlnum (hd v) \<and> list_all isSlugChar (tl v))"

text \<open>\<open>typeof tag === 'string' && tag.trim()\<close>\<close>

fun nonBlankString :: "json \<Rightarrow> bool" where
  "nonBlankString (JStr s) = (trim s \<noteq> [])"
| "nonBlankString _ = False"

text \<open>\<open>!Array.isArray(tags) || !tags.every(...)\<close>\<close>

fun badTags :: "json \<Rightarrow> bool" where
  "badTags (JArr tags) = (\<not> list_all nonBlankString tags)"
| "badTags _ = True"

text \<open>\<open>pack.minAppVersion\<close> when it is a string that is not blank.\<close>

fun minAppVersionOf :: "json option \<Rightarrow> string option" where
  "minAppVersionOf (Some (JStr s)) = (if trim s \<noteq> [] then Some s else None)"
| "minAppVersionOf _ = None"

text \<open>Lines 70 to 118: the field checks of one entry.\<close>

definition entryFieldChecks :: "string \<Rightarrow> json \<Rightarrow> issue list \<Rightarrow> issue list" where
  "entryFieldChecks prefix pack issues0 =
     (let packId = trimmedString (getProp pack ''packId'');
          publisher = trimmedString (getProp pack ''publisher'');
          slug = trimmedString (getProp pack ''slug'');
          displayName = trimmedString (getProp pack ''displayName'');
          latestVersion = trimmedString (getProp pack ''latestVersion'');
          manifestUrl = trimmedString (getProp pack ''manifestUrl'');
          issues1 = addIssueWhen (packId = []) issues0 Error (prefix @ ''.packId is required.'');
          issues2 = addIssueWhen (publisher = []) issues1 Error
            (prefix @ ''.publisher is required.'');
          issues3 = addIssueWhen (slug = []) issues2 Error (prefix @ ''.slug is required.'');
          issues4 = addIssueWhen (displayName = []) issues3 Error
            (prefix @ ''.displayName is required.'');
          issues5 = addIssueWhen (latestVersion = []) issues4 Error
            (prefix @ ''.latestVersion is required.'');
          issues6 = addIssueWhen (manifestUrl = []) issues5 Error
            (prefix @ ''.manifestUrl is required.'');
          issues7 = addIssueWhen (publisher \<noteq> [] \<and> \<not> isValidPublisherOrSlug publisher) issues6
            Error (prefix @ ''.publisher contains invalid characters: '' @ publisher);
          issues8 = addIssueWhen (slug \<noteq> [] \<and> \<not> isValidPublisherOrSlug slug) issues7
            Error (prefix @ ''.slug contains invalid characters: '' @ slug);
          expectedPackId = publisher @ ''.'' @ slug;
          issues9 = addIssueWhen
            (packId \<noteq> [] \<and> publisher \<noteq> [] \<and> slug \<noteq> [] \<and> packId \<noteq> expectedPackId) issues8
            Error (prefix @ ''.packId must equal publisher.slug ('' @ expectedPackId @ '').'');
          issues10 = addIssueWhen (latestVersion \<noteq> [] \<and> \<not> isSemver latestVersion) issues9
            Error (prefix @ ''.latestVersion must be valid semver (got '' @ latestVersion @ '').'');
          issues11 =
            (case minAppVersionOf (getProp pack ''minAppVersion'') of
               None \<Rightarrow> issues10
             | Some m \<Rightarrow>
                 addIssueWhen (\<not> isSemver (trim m)) issues10 Error
                   (prefix @ ''.minAppVersion must be valid semver (got '' @ m @ '').''));
          issues12 =
            (case getProp pack ''tags'' of
               None \<Rightarrow> issues11
             | Some tags \<Rightarrow>
                 addIssueWhen (badTags tags) issues11 Error
                   (prefix @ ''.tags must be an array of non-empty strings.''));
          issues13 =
            (case getProp pack ''description'' of
               None \<Rightarrow> issues12
             | Some d \<Rightarrow>
                 addIssueWhen (\<not> isString d) issues12 Error
                   (prefix @ ''.description must be a string when present.''))
      in issues13)"

text \<open>Lines 120 to 135. \<open>expectedSuffix\<close> is computed and never read;
  \<open>encodeURIComponent\<close> throws only on a lone surrogate, which a string of the model
  cannot hold.\<close>

definition checkManifestUrl ::
  "host \<Rightarrow> bool \<Rightarrow> string \<Rightarrow> string \<Rightarrow> string \<Rightarrow> string \<Rightarrow> issue list \<Rightarrow> error + issue list" where
  "checkManifestUrl h strictMode prefix packId latestVersion manifestUrl issues =
     (if manifestUrl = [] then Inr issues
      else
        (case urlPathname h manifestUrl of
           None \<Rightarrow> Inr (addIssue issues Error (prefix @ ''.manifestUrl must be a valid URL.''))
         | Some rawPathname \<Rightarrow>
             (case decodeURIComponent rawPathname of
                Inl e \<Rightarrow> Inl e
              | Inr pathname \<Rightarrow>
                  Inr (addIssueWhen
                         (packId \<noteq> [] \<and> latestVersion \<noteq> [] \<and>
                          \<not> endsWith pathname
                              (''/packs/'' @ packId @ ''/versions/'' @ latestVersion @
                               ''/manifest.v1.json''))
                         issues (advisory strictMode)
                         (prefix @
                          ''.manifestUrl does not end with the expected path for packId/version (got ''
                          @ pathname @ '').'')))))"

text \<open>Lines 137 to 149: \<open>seen\<close> maps a normalized id to the first literal id.\<close>

definition checkDuplicate ::
  "string \<Rightarrow> issue list \<times> (string \<rightharpoonup> string) \<Rightarrow> issue list \<times> (string \<rightharpoonup> string)" where
  "checkDuplicate packId st =
     (let normalizedId = normalizePackId packId
      in if normalizedId = [] then st
         else
           (case snd st normalizedId of
              None \<Rightarrow> (fst st, (snd st)(normalizedId \<mapsto> packId))
            | Some existing \<Rightarrow>
                if existing \<noteq> [] then
                  (addIssue (fst st) Error
                     (''Duplicate packId (case-insensitive): '' @ dq @ packId @ dq @
                      '' conflicts with '' @ dq @ existing @ dq @ ''.''),
                   snd st)
                else (fst st, (snd st)(normalizedId \<mapsto> packId))))"

text \<open>The body of the loop over \<open>catalog.packs.entries()\<close>.\<close>

definition validateEntry ::
  "host \<Rightarrow> bool \<Rightarrow> nat \<Rightarrow> json \<Rightarrow> issue list \<times> (string \<rightharpoonup> string) \<Rightarrow>
     error + issue list \<times> (string \<rightharpoonup> string)" where
  "validateEntry h strictMode index pack st =
     (let prefix = ''catalog.packs['' @ showNat index @ '']''
      in if notPlainObject pack
         then Inr (addIssue (fst st) Error (prefix @ '' must be an object.''), snd st)
         else
           (let packId = trimmedString (getProp pack ''packId'');
                latestVersion = trimmedString (getProp pack ''latestVersion'');
                manifestUrl = trimmedString (getProp pack ''manifestUrl'')
            in case checkManifestUrl h strictMode prefix packId latestVersion manifestUrl
                      (entryFieldChecks prefix pack (fst st)) of
                 Inl e \<Rightarrow> Inl e
               | Inr issues \<Rightarrow> Inr (checkDuplicate packId (issues, snd st))))"

fun validateEntries ::
  "host \<Rightarrow> bool \<Rightarrow> nat \<Rightarrow> json list \<Rightarrow> issue list \<times> (string \<rightharpoonup> string) \<Rightarrow>
     error + issue list \<times> (string \<rightharpoonup> string)" where
  "validateEntries h strictMode index [] st = Inr st"
| "validateEntries h strictMode index (pack # packs) st =
     (case validateEntry h strictMode index pack st of
        Inl e \<Rightarrow> Inl e
      | Inr st' \<Rightarrow> validateEntries h strictMode (Suc index) packs st')"

text \<open>\<open>p && typeof p.packId === 'string' ? p.packId.trim() : ''\<close>, kept by
  \<open>filter(Boolean)\<close> when it is not empty.\<close>

definition sortKey :: "json \<Rightarrow> string" where
  "sortKey p = (if truthy p then trimmedString (getProp p ''packId'') else [])"

definition checkSorted :: "host \<Rightarrow> bool \<Rightarrow> json list \<Rightarrow> issue list \<Rightarrow> issue list" where
  "checkSorted h strictMode packs issues =
     (let packIds = filter (\<lambda>k. k \<noteq> []) (map sortKey packs);
          sorted = sortBy (localeCompare h) packIds
      in addIssueWhen (packIds \<noteq> sorted) issues (advisory strictMode)
           ''Catalog packs are not sorted by packId. (Recommended for clean diffs.)'')"

text \<open>Lines 45 to 53.\<close>

fun checkGeneratedAt :: "host \<Rightarrow> json option \<Rightarrow> issue list \<Rightarrow> issue list" where
  "checkGeneratedAt h generatedAt issues =
     (if blankOrNoString generatedAt
      then addIssue issues Error ''catalog.generatedAt must be a non-empty string.''
      else
        (case generatedAt of
           Some (JStr s) \<Rightarrow>
             addIssueWhen (\<not> dateParses h s) issues Error
               (''catalog.generatedAt is not a parseable timestamp: '' @ s)
         | _ \<Rightarrow> issues))"

fun validateCatalog :: "host \<Rightarrow> json \<Rightarrow> bool \<Rightarrow> error + issue list" where
  "validateCatalog h catalog strictMode =
     (if notPlainObject catalog
      then Inr (addIssue [] Error ''Catalog root must be a JSON object.'')
      else
        (let issues1 = addIssueWhen (notPositiveInteger (getProp catalog ''schemaVersion'')) []
                         Error ''catalog.schemaVersion must be a positive integer.'';
             issues2 = checkGeneratedAt h (getProp catalog ''generatedAt'') issues1
         in case getProp catalog ''packs'' of
              Some (JArr packs) \<Rightarrow>
                (case validateEntries h strictMode 0 packs (issues2, Map.empty) of
                   Inl e \<Rightarrow> Inl e
                 | Inr st \<Rightarrow> Inr (checkSorted h strictMode packs (fst st)))
            | _ \<Rightarrow> Inr (addIssue issues2 Error ''catalog.packs must be an array.'')))"

declare validateCatalog.simps [simp del]

text \<open>The duplicate-packId finding, by the fixed head of its message.\<close>

definition isDuplicateIssue :: "issue \<Rightarrow> bool" where
  "isDuplicateIssue i = startsWith (message i) ''Duplicate packId''"

section \<open>A host and a file system for the examples\<close>

text \<open>
  The examples below run on a host that knows the one timestamp and the URLs they use
  (a URL's pathname keeps its percent signs as written) and that collates ASCII strings
  without regard to case first, lower case before upper case on a tie.
\<close>

definition sampleCompare :: "string \<Rightarrow> string \<Rightarrow> int" where
  "sampleCompare a b =
     (let la = toLowerCase a; lb = toLowerCase b
      in if strLess la lb then -1
         else if strLess lb la then 1
         else if a = b then 0
         else if strLess b a then -1 else 1)"

definition sampleHost :: host where
  "sampleHost =
     \<lparr>dateParses = (\<lambda>s. s = ''2026-01-01T00:00:00Z''),
      urlPathname = map_of
        [(''https://example.com/packs/pub.slug/versions/1.0.0/manifest.v1.json'',
          ''/packs/pub.slug/versions/1.0.0/manifest.v1.json''),
         (''https://example.com/100%/packs/pub.slug/versions/1.0.0/manifest.v1.json'',
          ''/100%/packs/pub.slug/versions/1.0.0/manifest.v1.json'')],
      localeCompare = sampleCompare\<rparr>"

text \<open>
  The example repository is the working directory \<open>/repo\<close>. It holds one pack,
  \<open>packs/pub.slug\<close>, with one version folder \<open>1.0.0\<close> (the manifest, the profile and
  what an example adds), and a file \<open>secret.txt\<close> beside \<open>packs\<close>. The profile's
  digest is \<open>aa...a\<close>.
\<close>

definition sampleProfile :: json where
  "sampleProfile = JArr
     [JObj [(''id'', JStr ''123e4567-e89b-12d3-a456-426614174000''),
            (''label'', JStr ''List''), (''command'', JStr ''ls -la''),
            (''description'', JStr []), (''tags'', JArr [JStr ''fs''])]]"

definition sampleManifest :: "string \<Rightarrow> json list \<Rightarrow> json" where
  "sampleManifest profileSha assets = JObj
     [(''schemaVersion'', JNum (Integral 1)),
      (''packId'', JStr ''pub.slug''),
      (''version'', JStr ''1.0.0''),
      (''profile'', JObj [(''file'', JStr ''profile.json''), (''sha256'', JStr profileSha)]),
      (''assets'', JArr assets)]"

definition samplePackJson :: "string \<Rightarrow> json" where
  "samplePackJson latest = JObj
     [(''packId'', JStr ''pub.slug''), (''publisher'', JStr ''pub''),
      (''license'', JStr ''MIT''), (''latestVersion'', JStr latest)]"

definition sampleFs :: "string \<Rightarrow> json \<Rightarrow> json \<Rightarrow> (string \<times> node) list \<Rightarrow> fsys" where
  "sampleFs secretDigest packJson manifest extra =
     \<lparr>root = Dir
        [(''repo'', Dir
           [(''secret.txt'', File secretDigest None),
            (''packs'', Dir
               [(''pub.slug'', Dir
                  [(''pack.json'', File (replicate 64 (CHR ''c'')) (Some packJson)),
                   (''versions'', Dir
                      [(''1.0.0'', Dir
                         ([(''manifest.v1.json'',
                            File (replicate 64 (CHR ''d'')) (Some manifest)),
                           (''profile.json'',
                            File (replicate 64 (CHR ''a'')) (Some sampleProfile))]
                          @ extra))])])])])],
      cwd = [''repo'']\<rparr>"

section \<open>Properties\<close>

subsection \<open>Semantic versions\<close>

lemma bitlen_pos: "0 < n \<Longrightarrow> bitlen n = Suc (bitlen (n div 2))"
  by (subst bitlen.simps) simp

lemma bitlen_nonpos: "n \<le> 0 \<Longrightarrow> bitlen n = 0"
  by (subst bitlen.simps) simp

lemma bitlen_lower: "0 < n \<Longrightarrow> 2 ^ (bitlen n - 1) \<le> n"
proof (induction n rule: bitlen.induct)
  case (1 n)
  show ?case
  proof (cases "n div 2 \<le> 0")
    case True
    with "1.prems" have "n = 1" by linarith
    then show ?thesis by (simp add: bitlen_pos bitlen_nonpos)
  next
    case False
    then have pos: "0 < n div 2" by simp
    have ih: "2 ^ (bitlen (n div 2) - 1) \<le> n div 2"
      using "1.IH" "1.prems" pos by simp
    have bl: "bitlen n = Suc (bitlen (n div 2))" using "1.prems" by (rule bitlen_pos)
    have "0 < bitlen (n div 2)" using pos by (simp add: bitlen_pos)
    then have "bitlen n - 1 = Suc (bitlen (n div 2) - 1)" using bl by simp
    then have "(2::int) ^ (bitlen n - 1) = 2 * 2 ^ (bitlen (n div 2) - 1)" by simp
    also have "\<dots> \<le> 2 * (n div 2)" using ih by simp
    also have "\<dots> \<le> n" by simp
    finally show ?thesis .
  qed
qed

lemma bitlen_upper: "0 \<le> n \<Longrightarrow> n < 2 ^ bitlen n"
proof (induction n rule: bitlen.induct)
  case (1 n)
  show ?case
  proof (cases "n \<le> 0")
    case True
    with "1.prems" show ?thesis by simp
  next
    case False
    then have ih: "n div 2 < 2 ^ bitlen (n div 2)" using "1.IH" by simp
    have bl: "bitlen n = Suc (bitlen (n div 2))" using False by (simp add: bitlen_pos)
    have "n < 2 * (n div 2 + 1)" by presburger
    also have "\<dots> \<le> 2 * 2 ^ bitlen (n div 2)" using ih by simp
    finally show ?thesis using bl by simp
  qed
qed

lemma toDouble_overflow:
  assumes "2 ^ 1024 \<le> n"
  shows "toDouble n = PosInfinity"
proof -
  have npos: "0 < n" using assms by (smt (verit) zero_less_power)
  define L where "L = bitlen n"
  have up: "n < 2 ^ L" unfolding L_def using bitlen_upper npos by simp
  have "(2::int) ^ 1024 < 2 ^ L" using assms up by linarith
  then have L1024: "1024 < L"
    by (intro power_less_imp_less_exp [where a = "2::int"]) simp
  define e where "e = L - 53"
  have lo: "2 ^ (L - 1) \<le> n" unfolding L_def using bitlen_lower npos by simp
  have split: "L - 1 = e + 52" using L1024 by (simp add: e_def)
  have lo2: "(2::int) ^ e * 2 ^ 52 \<le> n" using lo split by (simp add: power_add)
  have "(2::int) ^ e * 2 ^ 52 div 2 ^ e \<le> n div 2 ^ e" using lo2 by (intro zdiv_mono1) simp_all
  then have q52: "(2::int) ^ 52 \<le> n div 2 ^ e" by simp
  define q where "q = n div 2 ^ e"
  define r where "r = n mod 2 ^ e"
  define q' where "q' = (if 2 ^ (e - 1) < r \<or> (r = 2 ^ (e - 1) \<and> odd q) then q + 1 else q)"
  have "q \<le> q'" by (simp add: q'_def)
  then have "(2::int) ^ 52 \<le> q'" using q52 q_def by linarith
  then have "(2::int) ^ 52 * 2 ^ e \<le> q' * 2 ^ e" by (intro mult_right_mono) simp_all
  moreover have "(2::int) ^ 1024 \<le> 2 ^ 52 * 2 ^ e"
  proof -
    have "1024 \<le> 52 + e" using L1024 by (simp add: e_def)
    then have "(2::int) ^ 1024 \<le> 2 ^ (52 + e)" by (intro power_increasing) simp_all
    then show ?thesis by (simp only: power_add)
  qed
  ultimately have big: "(2::int) ^ 1024 \<le> q' * 2 ^ e" by linarith
  have "(2::int) ^ 53 \<le> 2 ^ 1024" by (intro power_increasing) simp_all
  then have n53: "\<not> n < 2 ^ 53" using assms by linarith
  show ?thesis
    using big n53 unfolding toDouble_def Let_def q'_def q_def r_def e_def L_def
    by (simp only: if_False if_True)
qed

lemma decimalValue_snoc: "decimalValue (s @ [c]) = 10 * decimalValue s + digitValue c"
  by (simp add: decimalValue_def)

lemma decimalValue_nines: "decimalValue (replicate n (CHR ''9'')) = 10 ^ n - 1"
proof (induction n)
  case 0
  show ?case by (simp add: decimalValue_def)
next
  case (Suc n)
  have "replicate (Suc n) (CHR ''9'') = replicate n (CHR ''9'') @ [CHR ''9'']"
    by (simp add: replicate_append_same)
  then show ?case using Suc by (simp add: decimalValue_snoc digitValue_def)
qed

lemma numberOf_nines: "numberOf (replicate 310 (CHR ''9'')) = PosInfinity"
proof -
  have "(2::int) ^ 1024 \<le> 10 ^ 310 - 1" by simp
  then show ?thesis by (simp only: numberOf_def decimalValue_nines toDouble_overflow)
qed


lemma splitOn_absent: "c \<notin> set s \<Longrightarrow> splitOn c s = [s]"
  by (induction s) auto

lemma semverExec_nines:
  "semverExec (normalizeSemver (''1.0.0-'' @ replicate 310 (CHR ''9''))) =
     Some (''1'', ''0'', ''0'', Some (replicate 310 (CHR ''9'')))"
  by code_simp

lemma parseSemver_nines:
  "parseSemver (''1.0.0-'' @ replicate 310 (CHR ''9'')) =
     Some \<lparr>major = numberOf ''1'', minor = numberOf ''0'', patch = numberOf ''0'',
           pre = [replicate 310 (CHR ''9'')]\<rparr>"
proof -
  have sp: "splitOn (CHR ''.'') (replicate 310 (CHR ''9'')) = [replicate 310 (CHR ''9'')]"
    by (rule splitOn_absent) simp
  show ?thesis
    unfolding parseSemver_def semverExec_nines by (simp add: sp)
qed

lemma compareIdentifiers_nines:
  "compareIdentifiers (replicate 310 (CHR ''9'')) (replicate 310 (CHR ''9'')) = - 1"
  by (simp add: compareIdentifiers_def isNumericIdentifier_def numberOf_nines
      list_all_iff isDigit_def)



text \<open>C4: \<open>compareSemver\<close> should be reflexive on valid semver strings. A numeric
  prerelease identifier of 310 digits converts to \<open>Infinity\<close>, the difference of two
  such identifiers is \<open>NaN\<close>, and \<open>compareIdentifiers\<close> answers \<open>-1\<close>: the
  version compares below itself.\<close>

theorem compareSemver_not_reflexive:
  "compareSemver (''1.0.0-'' @ replicate 310 (CHR ''9''))
     (''1.0.0-'' @ replicate 310 (CHR ''9'')) = Some (- 1)"
  unfolding compareSemver.simps parseSemver_nines
  by (simp add: compareIdentifiers_nines)

text \<open>The order laws of C4 hold for all finite version strings: the comparison is
  that of the ranks.\<close>

lemma numKey_eq: "numKey a = numKey b \<longleftrightarrow> a = b"
  by (cases a; cases b) auto

lemma numGreater_key: "numGreater a b \<longleftrightarrow> numKey b < numKey a"
  by (cases a; cases b) auto

lemma strLess_iff: "strLess a b \<longleftrightarrow> a < b"
  by (induction a b rule: strLess.induct) (auto simp: less_char_def)

lemma compareIdentifiers_key:
  assumes "finiteId a" "finiteId b"
  shows "compareIdentifiers a b = cmp3 (identKey a) (identKey b)"
proof (cases "isNumericIdentifier a"; cases "isNumericIdentifier b")
  assume n: "isNumericIdentifier a" "isNumericIdentifier b"
  then obtain x y where "numberOf a = Finite x" "numberOf b = Finite y"
    using assms by (cases "numberOf a"; cases "numberOf b") (auto simp: finiteId_def)
  then show ?thesis using n
    by (auto simp: compareIdentifiers_def identKey_def cmp3_def)
next
  assume "isNumericIdentifier a" "\<not> isNumericIdentifier b"
  then show ?thesis by (auto simp: compareIdentifiers_def identKey_def cmp3_def)
next
  assume "\<not> isNumericIdentifier a" "isNumericIdentifier b"
  then show ?thesis by (auto simp: compareIdentifiers_def identKey_def cmp3_def)
next
  assume "\<not> isNumericIdentifier a" "\<not> isNumericIdentifier b"
  then show ?thesis
    by (auto simp: compareIdentifiers_def identKey_def cmp3_def strLess_iff)
qed

lemma cmp3_Cons:
  "cmp3 (x # xs) (y # ys) = (if cmp3 x y \<noteq> 0 then cmp3 x y else cmp3 xs ys)"
  by (auto simp: cmp3_def)

lemma comparePre_key:
  "(\<forall>x \<in> set as \<union> set bs. finiteId x) \<Longrightarrow>
   comparePre as bs = cmp3 (map identKey as) (map identKey bs)"
proof (induction as bs rule: comparePre.induct)
  case 1
  show ?case by (simp add: cmp3_def)
next
  case (2 b bs)
  show ?case by (simp add: cmp3_def)
next
  case (3 a as)
  show ?case by (simp add: cmp3_def)
next
  case (4 a as b bs)
  have ab: "compareIdentifiers a b = cmp3 (identKey a) (identKey b)"
    using "4.prems" by (intro compareIdentifiers_key) auto
  show ?case
  proof (cases "compareIdentifiers a b = 0")
    case True
    then have "comparePre as bs = cmp3 (map identKey as) (map identKey bs)"
      using "4.IH" "4.prems" by auto
    then show ?thesis using True ab by (simp add: cmp3_Cons)
  next
    case False
    then show ?thesis using ab by (simp add: cmp3_Cons)
  qed
qed

lemma compareParsed_key:
  assumes "\<forall>x \<in> set (pre pa) \<union> set (pre pb). finiteId x"
  shows "compareParsed pa pb = cmp3 (verKey pa) (verKey pb)"
proof -
  have p: "comparePre (pre pa) (pre pb) = cmp3 (map identKey (pre pa)) (map identKey (pre pb))"
    using assms by (rule comparePre_key)
  show ?thesis
    unfolding compareParsed.simps p
    by (auto simp: verKey_def cmp3_def numGreater_key numKey_eq)
qed

lemma cmp3_refl: "cmp3 x x = 0"
  by (simp add: cmp3_def)

lemma cmp3_antisym: "cmp3 x y = - cmp3 y x"
  by (auto simp: cmp3_def)

lemma cmp3_trans: "cmp3 x y \<le> 0 \<Longrightarrow> cmp3 y z \<le> 0 \<Longrightarrow> cmp3 x z \<le> 0"
  by (auto simp: cmp3_def split: if_splits)


lemma cmp3_strict_trans: "cmp3 x y < 0 \<Longrightarrow> cmp3 y z \<le> 0 \<Longrightarrow> cmp3 x z < 0"
  by (auto simp: cmp3_def split: if_splits)

lemma isSemver_parseSemver: "isSemver v \<longleftrightarrow> parseSemver v \<noteq> None"
  by (auto simp: isSemver_def parseSemver_def split: option.splits)

lemma finiteSemver_isSemver: "finiteSemver v \<Longrightarrow> isSemver v"
  by (auto simp: finiteSemver_def isSemver_parseSemver split: option.splits)

lemma compareSemver_key:
  assumes "finiteSemver a" "finiteSemver b"
  shows "\<exists>pa pb. parseSemver a = Some pa \<and> parseSemver b = Some pb \<and>
           compareSemver a b = Some (cmp3 (verKey pa) (verKey pb))"
proof -
  obtain pa pb where pa: "parseSemver a = Some pa" "list_all finiteId (pre pa)"
    and pb: "parseSemver b = Some pb" "list_all finiteId (pre pb)"
    using assms by (auto simp: finiteSemver_def split: option.splits)
  have "compareParsed pa pb = cmp3 (verKey pa) (verKey pb)"
    using pa(2) pb(2) by (intro compareParsed_key) (auto simp: list_all_iff)
  then show ?thesis using pa(1) pb(1) by (simp add: compareSemver.simps)
qed

text \<open>Away from the overflow, \<open>compareSemver\<close> is the order the claim C4 describes.\<close>

lemma compareSemver_order_finite:
  assumes "finiteSemver a" "finiteSemver b" "finiteSemver c"
  shows "compareSemver a a = Some 0"
    and "\<exists>x. compareSemver a b = Some x \<and> compareSemver b a = Some (- x)"
    and "\<exists>x y z. compareSemver a b = Some x \<and> compareSemver b c = Some y \<and>
                 compareSemver a c = Some z \<and> (x \<le> 0 \<and> y \<le> 0 \<longrightarrow> z \<le> 0)"
proof -
  obtain pa where pa: "parseSemver a = Some pa"
    using assms(1) by (auto simp: finiteSemver_def split: option.splits)
  obtain pb where pb: "parseSemver b = Some pb"
    using assms(2) by (auto simp: finiteSemver_def split: option.splits)
  obtain pc where pc: "parseSemver c = Some pc"
    using assms(3) by (auto simp: finiteSemver_def split: option.splits)
  have aa: "compareSemver a a = Some (cmp3 (verKey pa) (verKey pa))"
    using compareSemver_key [OF assms(1) assms(1)] pa by auto
  have ab: "compareSemver a b = Some (cmp3 (verKey pa) (verKey pb))"
    using compareSemver_key [OF assms(1) assms(2)] pa pb by auto
  have ba: "compareSemver b a = Some (cmp3 (verKey pb) (verKey pa))"
    using compareSemver_key [OF assms(2) assms(1)] pa pb by auto
  have bc: "compareSemver b c = Some (cmp3 (verKey pb) (verKey pc))"
    using compareSemver_key [OF assms(2) assms(3)] pb pc by auto
  have ac: "compareSemver a c = Some (cmp3 (verKey pa) (verKey pc))"
    using compareSemver_key [OF assms(1) assms(3)] pa pc by auto
  show "compareSemver a a = Some 0" using aa by (simp add: cmp3_refl)
  show "\<exists>x. compareSemver a b = Some x \<and> compareSemver b a = Some (- x)"
    using ab ba cmp3_antisym [of "verKey pb" "verKey pa"] by simp
  show "\<exists>x y z. compareSemver a b = Some x \<and> compareSemver b c = Some y \<and>
                 compareSemver a c = Some z \<and> (x \<le> 0 \<and> y \<le> 0 \<longrightarrow> z \<le> 0)"
    using ab bc ac cmp3_trans [of "verKey pa" "verKey pb" "verKey pc"] by simp
qed

text \<open>The version folder the scan settles on is one of the folders and, when every
  folder name is a semver string away from the overflow, none of them compares above
  it.\<close>

lemma greatest_finite:
  "finiteSemver mx \<Longrightarrow> list_all finiteSemver rest \<Longrightarrow> finiteSemver (greatest mx rest)"
  by (induction rest arbitrary: mx) (auto split: option.splits)

lemma greatest_upper_bound:
  assumes "finiteSemver mx" "list_all finiteSemver rest"
    and "finiteSemver w"
    and "\<exists>x. compareSemver w mx = Some x \<and> x \<le> 0"
  shows "\<exists>x. compareSemver w (greatest mx rest) = Some x \<and> x \<le> 0"
  using assms
proof (induction rest arbitrary: mx)
  case Nil
  then show ?case by simp
next
  case (Cons raw rest)
  have fr: "finiteSemver raw" and frest: "list_all finiteSemver rest"
    using Cons.prems(2) by simp_all
  obtain pw pm pr where p: "parseSemver w = Some pw" "parseSemver mx = Some pm"
      "parseSemver raw = Some pr"
    and wm: "compareSemver w mx = Some (cmp3 (verKey pw) (verKey pm))"
    and rm: "compareSemver raw mx = Some (cmp3 (verKey pr) (verKey pm))"
    and wr: "compareSemver w raw = Some (cmp3 (verKey pw) (verKey pr))"
    using compareSemver_key [OF Cons.prems(3) Cons.prems(1)]
      compareSemver_key [OF fr Cons.prems(1)] compareSemver_key [OF Cons.prems(3) fr]
    by auto
  have le: "cmp3 (verKey pw) (verKey pm) \<le> 0" using Cons.prems(4) wm by simp
  show ?case
  proof (cases "0 < cmp3 (verKey pr) (verKey pm)")
    case True
    then have "cmp3 (verKey pm) (verKey pr) \<le> 0"
      using cmp3_antisym [of "verKey pm" "verKey pr"] by simp
    then have "cmp3 (verKey pw) (verKey pr) \<le> 0" using le by (rule cmp3_trans [rotated])
    then have "\<exists>x. compareSemver w raw = Some x \<and> x \<le> 0" using wr by simp
    from Cons.IH [OF fr frest Cons.prems(3) this] show ?thesis using True rm by simp
  next
    case False
    from Cons.IH [OF Cons.prems(1) frest Cons.prems(3) Cons.prems(4)]
    show ?thesis using False rm by simp
  qed
qed

lemma greatest_is_maximum:
  assumes "list_all finiteSemver (first # rest)" and "w \<in> set (first # rest)"
  shows "\<exists>x. compareSemver w (greatest first rest) = Some x \<and> x \<le> 0"
  using assms
proof (induction rest arbitrary: first)
  case Nil
  then have "w = first" "finiteSemver first" by simp_all
  then show ?case using compareSemver_order_finite(1) [of first first first] by simp
next
  case (Cons raw rest)
  have ff: "finiteSemver first" and fr: "finiteSemver raw" and frest: "list_all finiteSemver rest"
    using Cons.prems(1) by simp_all
  define mx where "mx = (case compareSemver raw first of None \<Rightarrow> first
                         | Some cmp \<Rightarrow> if 0 < cmp then raw else first)"
  have g: "greatest first (raw # rest) = greatest mx rest" by (simp add: mx_def)
  have fm: "finiteSemver mx" using ff fr by (auto simp: mx_def split: option.splits)
  obtain pf pr where p: "parseSemver first = Some pf" "parseSemver raw = Some pr"
    and rf: "compareSemver raw first = Some (cmp3 (verKey pr) (verKey pf))"
    and fr': "compareSemver first raw = Some (cmp3 (verKey pf) (verKey pr))"
    using compareSemver_key [OF fr ff] compareSemver_key [OF ff fr] by auto
  have refl: "\<And>v. finiteSemver v \<Longrightarrow> compareSemver v v = Some 0"
    using compareSemver_order_finite(1) by blast
  consider "w = first" | "w = raw" | "w \<in> set rest" using Cons.prems(2) by auto
  then show ?case
  proof cases
    case 1
    have "\<exists>x. compareSemver first mx = Some x \<and> x \<le> 0"
    proof (cases "0 < cmp3 (verKey pr) (verKey pf)")
      case True
      then have "mx = raw" using rf by (simp add: mx_def)
      moreover have "cmp3 (verKey pf) (verKey pr) \<le> 0"
        using True cmp3_antisym [of "verKey pf" "verKey pr"] by simp
      ultimately show ?thesis using fr' by simp
    next
      case False
      then have "mx = first" using rf by (simp add: mx_def)
      then show ?thesis using refl [OF ff] by simp
    qed
    from greatest_upper_bound [OF fm frest ff this] show ?thesis using 1 g by simp
  next
    case 2
    have "\<exists>x. compareSemver raw mx = Some x \<and> x \<le> 0"
    proof (cases "0 < cmp3 (verKey pr) (verKey pf)")
      case True
      then have "mx = raw" using rf by (simp add: mx_def)
      then show ?thesis using refl [OF fr] by simp
    next
      case False
      then have "mx = first" using rf by (simp add: mx_def)
      then show ?thesis using rf False by simp
    qed
    from greatest_upper_bound [OF fm frest fr this] show ?thesis using 2 g by simp
  next
    case 3
    have "list_all finiteSemver (mx # rest)" using fm frest by simp
    moreover have "w \<in> set (mx # rest)" using 3 by simp
    ultimately show ?thesis using Cons.IH [of mx] g by simp
  qed
qed

lemma latest_behind_iff:
  assumes "list_all finiteSemver (first # rest)" and "finiteSemver latest"
  shows "(\<exists>c. compareSemver latest (greatest first rest) = Some c \<and> c < 0) \<longleftrightarrow>
         (\<exists>v \<in> set (first # rest). \<exists>c. compareSemver latest v = Some c \<and> c < 0)"
proof
  assume "\<exists>c. compareSemver latest (greatest first rest) = Some c \<and> c < 0"
  moreover have "greatest first rest \<in> set (first # rest)"
    by (induction rest arbitrary: first) (auto split: option.splits)
  ultimately show "\<exists>v \<in> set (first # rest). \<exists>c. compareSemver latest v = Some c \<and> c < 0"
    by blast
next
  assume "\<exists>v \<in> set (first # rest). \<exists>c. compareSemver latest v = Some c \<and> c < 0"
  then obtain v c where v: "v \<in> set (first # rest)"
    and c: "compareSemver latest v = Some c" "c < 0" by blast
  have fv: "finiteSemver v" using assms(1) v by (auto simp: list_all_iff)
  have fg: "finiteSemver (greatest first rest)"
    using assms(1) by (intro greatest_finite) simp_all
  obtain x where x: "compareSemver v (greatest first rest) = Some x" "x \<le> 0"
    using greatest_is_maximum [OF assms(1) v] by blast
  obtain pl where pl: "parseSemver latest = Some pl"
    using assms(2) by (auto simp: finiteSemver_def split: option.splits)
  obtain pv where pv: "parseSemver v = Some pv"
    using fv by (auto simp: finiteSemver_def split: option.splits)
  obtain pg where pg: "parseSemver (greatest first rest) = Some pg"
    using fg by (auto simp: finiteSemver_def split: option.splits)
  have lv: "compareSemver latest v = Some (cmp3 (verKey pl) (verKey pv))"
    using compareSemver_key [OF assms(2) fv] pl pv by auto
  have vg: "compareSemver v (greatest first rest) = Some (cmp3 (verKey pv) (verKey pg))"
    using compareSemver_key [OF fv fg] pv pg by auto
  have lg: "compareSemver latest (greatest first rest) = Some (cmp3 (verKey pl) (verKey pg))"
    using compareSemver_key [OF assms(2) fg] pl pg by auto
  have c1: "cmp3 (verKey pl) (verKey pv) < 0"
    using c(2) c(1) [unfolded lv] by (simp only: option.inject)
  have c2: "cmp3 (verKey pv) (verKey pg) \<le> 0"
    using x(2) x(1) [unfolded vg] by (simp only: option.inject)
  have "cmp3 (verKey pl) (verKey pg) < 0"
    using c1 c2 by (rule cmp3_strict_trans)
  then show "\<exists>c. compareSemver latest (greatest first rest) = Some c \<and> c < 0"
    using lg by simp
qed

subsection \<open>The catalog validator\<close>

lemma dropWhile_id: "xs = [] \<or> \<not> P (hd xs) \<Longrightarrow> dropWhile P xs = xs"
  by (cases xs) auto

lemma trim_hd: "trim s \<noteq> [] \<Longrightarrow> \<not> isSpace (hd (trim s))"
proof -
  assume ne: "trim s \<noteq> []"
  define t where "t = dropWhile isSpace s"
  have eq0: "trim s = rev (dropWhile isSpace (rev t))" by (simp add: trim_def t_def)
  have t: "t \<noteq> []" using ne eq0 by auto
  then have ht: "\<not> isSpace (hd t)" unfolding t_def by (simp add: hd_dropWhile)
  have "trim s = rev (dropWhile isSpace (rev t))" by (simp add: trim_def t_def)
  also have "\<dots> = rev (dropWhile isSpace (rev (hd t # tl t)))" using t by simp
  finally have eq: "trim s = rev (dropWhile isSpace (rev (tl t) @ [hd t]))" by simp
  have "dropWhile isSpace (rev (tl t) @ [hd t]) = dropWhile isSpace (rev (tl t)) @ [hd t]"
    using ht by (simp add: dropWhile_append3)
  then have "trim s = hd t # rev (dropWhile isSpace (rev (tl t)))" using eq by simp
  then show ?thesis using ht by simp
qed

lemma trim_last: "trim s \<noteq> [] \<Longrightarrow> \<not> isSpace (last (trim s))"
proof -
  assume ne: "trim s \<noteq> []"
  define u where "u = dropWhile isSpace (rev (dropWhile isSpace s))"
  have eq0: "trim s = rev u" by (simp add: trim_def u_def)
  have u: "u \<noteq> []" using ne eq0 by auto
  then have "\<not> isSpace (hd u)" unfolding u_def by (simp add: hd_dropWhile)
  moreover have "last (trim s) = hd u" using u eq0 by (simp add: last_rev)
  ultimately show ?thesis by simp
qed

lemma trim_idem: "trim (trim s) = trim s"
proof (cases "trim s = []")
  case True
  have "trim [] = []" by (simp add: trim_def)
  then show ?thesis using True by simp
next
  case False
  have a: "dropWhile isSpace (trim s) = trim s"
    using trim_hd [OF False] by (intro dropWhile_id) simp
  have "hd (rev (trim s)) = last (trim s)" using False by (simp add: hd_rev)
  then have b: "dropWhile isSpace (rev (trim s)) = rev (trim s)"
    using trim_last [OF False] by (intro dropWhile_id) simp
  show ?thesis by (subst (1) trim_def) (simp add: a b)
qed

lemma not_dup_c: "\<not> isDuplicateIssue \<lparr>level = l, message = CHR ''c'' # m\<rparr>"
  by (simp add: isDuplicateIssue_def startsWith_def)

lemma not_dup_C: "\<not> isDuplicateIssue \<lparr>level = l, message = CHR ''C'' # m\<rparr>"
  by (simp add: isDuplicateIssue_def startsWith_def)

lemma filter_dup_when_c [simp]:
  "filter isDuplicateIssue (addIssueWhen c is l (CHR ''c'' # m)) = filter isDuplicateIssue is"
  by (simp add: addIssueWhen_def addIssue_def not_dup_c)

lemma filter_dup_when_C [simp]:
  "filter isDuplicateIssue (addIssueWhen c is l (CHR ''C'' # m)) = filter isDuplicateIssue is"
  by (simp add: addIssueWhen_def addIssue_def not_dup_C)

lemma filter_dup_add_c [simp]:
  "filter isDuplicateIssue (addIssue is l (CHR ''c'' # m)) = filter isDuplicateIssue is"
  by (simp add: addIssue_def not_dup_c)

lemma filter_dup_entryFieldChecks:
  "filter isDuplicateIssue (entryFieldChecks (CHR ''c'' # p) pack is) = filter isDuplicateIssue is"
  unfolding entryFieldChecks_def Let_def
  by (simp split: option.splits)

lemma filter_dup_checkManifestUrl:
  "checkManifestUrl h s (CHR ''c'' # p) packId lv url is = Inr is' \<Longrightarrow>
   filter isDuplicateIssue is' = filter isDuplicateIssue is"
  unfolding checkManifestUrl_def
  by (auto split: if_splits option.splits sum.splits)

lemma filter_dup_checkSorted:
  "filter isDuplicateIssue (checkSorted h s packs is) = filter isDuplicateIssue is"
  unfolding checkSorted_def Let_def by simp

lemma filter_dup_checkGeneratedAt:
  "filter isDuplicateIssue (checkGeneratedAt h g is) = filter isDuplicateIssue is"
  by (auto split: option.splits json.splits)

lemma validateEntry_object:
  assumes "validateEntry h s i (JObj e) (is, seen) = Inr (is', seen')"
  shows "\<exists>mid. filter isDuplicateIssue mid = filter isDuplicateIssue is \<and>
           checkDuplicate (trimmedString (map_of e ''packId'')) (mid, seen) = (is', seen')"
  using assms unfolding validateEntry_def Let_def notPlainObject_def
  by (auto split: sum.splits dest!: filter_dup_checkManifestUrl simp: filter_dup_entryFieldChecks)

lemma normalizePackId_trim: "normalizePackId (trim p) = normalizePackId p"
  by (simp add: normalizePackId_def trim_idem)

lemma normalizePackId_empty: "normalizePackId p = [] \<longleftrightarrow> trim p = []"
  by (simp add: normalizePackId_def toLowerCase_def)

lemma checkDuplicate_fresh:
  "normalizePackId p \<noteq> [] \<Longrightarrow> seen (normalizePackId p) = None \<Longrightarrow>
   checkDuplicate p (is, seen) = (is, seen(normalizePackId p \<mapsto> p))"
  by (simp add: checkDuplicate_def)

lemma checkDuplicate_seen:
  "normalizePackId p \<noteq> [] \<Longrightarrow> seen (normalizePackId p) = Some q \<Longrightarrow> q \<noteq> [] \<Longrightarrow>
   checkDuplicate p (is, seen) =
     (addIssue is Error
        (''Duplicate packId (case-insensitive): '' @ dq @ p @ dq @ '' conflicts with '' @
         dq @ q @ dq @ ''.''), seen)"
  by (simp add: checkDuplicate_def)

text \<open>C7: a catalog of exactly two entries whose packIds are equal after trimming and
  lowercasing (as \<open>"Pub.Slug"\<close> and \<open>"pub.slug"\<close> are) gets exactly one
  duplicate-packId error whenever \<open>validateCatalog\<close> returns, and its message names
  both literal ids: the second entry's first, then the first entry's.\<close>

theorem validateCatalog_duplicate_packId:
  assumes root: "catalog = JObj members"
    and packs: "map_of members ''packs'' = Some (JArr [JObj e1, JObj e2])"
    and id1: "map_of e1 ''packId'' = Some (JStr p1)"
    and id2: "map_of e2 ''packId'' = Some (JStr p2)"
    and ne: "trim p1 \<noteq> []"
    and same: "normalizePackId p1 = normalizePackId p2"
    and ret: "validateCatalog h catalog strictMode = Inr issues"
  shows "filter isDuplicateIssue issues =
           [\<lparr>level = Error,
             message = ''Duplicate packId (case-insensitive): '' @ dq @ trim p2 @ dq @
                       '' conflicts with '' @ dq @ trim p1 @ dq @ ''.''\<rparr>]"
proof -
  define issues2 where "issues2 =
    checkGeneratedAt h (map_of members ''generatedAt'')
      (addIssueWhen (notPositiveInteger (map_of members ''schemaVersion'')) [] Error
         ''catalog.schemaVersion must be a positive integer.'')"
  have f2: "filter isDuplicateIssue issues2 = []"
    unfolding issues2_def by (simp add: filter_dup_checkGeneratedAt del: checkGeneratedAt.simps)
  obtain st where
    ents: "validateEntries h strictMode 0 [JObj e1, JObj e2] (issues2, Map.empty) = Inr st"
    and fin: "issues = checkSorted h strictMode [JObj e1, JObj e2] (fst st)"
    using ret unfolding root issues2_def
    by (auto simp: validateCatalog.simps notPlainObject_def packs Let_def
        split: sum.splits simp del: checkGeneratedAt.simps)
  obtain is1 seen1 where
    v1: "validateEntry h strictMode 0 (JObj e1) (issues2, Map.empty) = Inr (is1, seen1)"
    and v2: "validateEntry h strictMode (Suc 0) (JObj e2) (is1, seen1) = Inr st"
    using ents by (auto split: sum.splits)
  obtain is2 seen2 where st: "st = (is2, seen2)" by (cases st)
  have n1: "normalizePackId (trim p1) \<noteq> []"
    using ne by (simp add: normalizePackId_trim normalizePackId_empty)
  have n2: "normalizePackId (trim p2) = normalizePackId (trim p1)"
    using same by (simp add: normalizePackId_trim)
  from validateEntry_object [OF v1] obtain mid1 where
    m1: "filter isDuplicateIssue mid1 = filter isDuplicateIssue issues2"
    and c1: "checkDuplicate (trim p1) (mid1, Map.empty) = (is1, seen1)"
    by (auto simp: id1)
  have r1: "is1 = mid1" "seen1 = [normalizePackId (trim p1) \<mapsto> trim p1]"
    using c1 checkDuplicate_fresh [OF n1, of Map.empty mid1] by simp_all
  from validateEntry_object [OF v2 [unfolded st]] obtain mid2 where
    m2: "filter isDuplicateIssue mid2 = filter isDuplicateIssue is1"
    and c2: "checkDuplicate (trim p2) (mid2, seen1) = (is2, seen2)"
    by (auto simp: id2)
  have s1: "seen1 (normalizePackId (trim p2)) = Some (trim p1)" by (simp add: r1 n2)
  have n3: "normalizePackId (trim p2) \<noteq> []" using n1 n2 by simp
  have "checkDuplicate (trim p2) (mid2, seen1) =
     (addIssue mid2 Error
        (''Duplicate packId (case-insensitive): '' @ dq @ trim p2 @ dq @ '' conflicts with '' @
         dq @ trim p1 @ dq @ ''.''), seen1)"
    using n3 s1 ne by (rule checkDuplicate_seen)
  then have is2: "is2 = addIssue mid2 Error
        (''Duplicate packId (case-insensitive): '' @ dq @ trim p2 @ dq @ '' conflicts with '' @
         dq @ trim p1 @ dq @ ''.'')" using c2 by simp
  have "filter isDuplicateIssue mid2 = []" using m2 r1 m1 f2 by simp
  then have "filter isDuplicateIssue is2 =
           [\<lparr>level = Error,
             message = ''Duplicate packId (case-insensitive): '' @ dq @ trim p2 @ dq @
                       '' conflicts with '' @ dq @ trim p1 @ dq @ ''.''\<rparr>]"
    unfolding is2 by (simp add: addIssue_def isDuplicateIssue_def startsWith_def)
  then show ?thesis by (simp add: fin st filter_dup_checkSorted)
qed

theorem validateCatalog_duplicate_packId_witness:
  "\<exists>issues.
     validateCatalog sampleHost
       (JObj [(''schemaVersion'', JNum (Integral 1)),
              (''generatedAt'', JStr ''2026-01-01T00:00:00Z''),
              (''packs'', JArr
                 [JObj [(''packId'', JStr ''Pub.Slug''), (''publisher'', JStr ''pub''),
                        (''slug'', JStr ''slug''), (''displayName'', JStr ''Pack''),
                        (''latestVersion'', JStr ''1.0.0''),
                        (''manifestUrl'', JStr
                           ''https://example.com/packs/pub.slug/versions/1.0.0/manifest.v1.json'')],
                  JObj [(''packId'', JStr ''pub.slug''), (''publisher'', JStr ''pub''),
                        (''slug'', JStr ''slug''), (''displayName'', JStr ''Pack''),
                        (''latestVersion'', JStr ''1.0.0''),
                        (''manifestUrl'', JStr
                           ''https://example.com/packs/pub.slug/versions/1.0.0/manifest.v1.json'')]])])
       False = Inr issues \<and>
     filter isDuplicateIssue issues =
       [\<lparr>level = Error,
         message = ''Duplicate packId (case-insensitive): '' @ dq @ ''pub.slug'' @ dq @
                   '' conflicts with '' @ dq @ ''Pub.Slug'' @ dq @ ''.''\<rparr>]"
proof -
  let ?e1 = "[(''packId'', JStr ''Pub.Slug''), (''publisher'', JStr ''pub''),
              (''slug'', JStr ''slug''), (''displayName'', JStr ''Pack''),
              (''latestVersion'', JStr ''1.0.0''),
              (''manifestUrl'', JStr
                 ''https://example.com/packs/pub.slug/versions/1.0.0/manifest.v1.json'')]"
  let ?e2 = "[(''packId'', JStr ''pub.slug''), (''publisher'', JStr ''pub''),
              (''slug'', JStr ''slug''), (''displayName'', JStr ''Pack''),
              (''latestVersion'', JStr ''1.0.0''),
              (''manifestUrl'', JStr
                 ''https://example.com/packs/pub.slug/versions/1.0.0/manifest.v1.json'')]"
  let ?members = "[(''schemaVersion'', JNum (Integral 1)),
                   (''generatedAt'', JStr ''2026-01-01T00:00:00Z''),
                   (''packs'', JArr [JObj ?e1, JObj ?e2])]"
  have "\<not> isl (validateCatalog sampleHost (JObj ?members) False)" by code_simp
  then obtain issues where ret: "validateCatalog sampleHost (JObj ?members) False = Inr issues"
    by (cases "validateCatalog sampleHost (JObj ?members) False") auto
  have packs: "map_of ?members ''packs'' = Some (JArr [JObj ?e1, JObj ?e2])" by simp
  have id1: "map_of ?e1 ''packId'' = Some (JStr ''Pub.Slug'')" by simp
  have id2: "map_of ?e2 ''packId'' = Some (JStr ''pub.slug'')" by simp
  have ne: "trim ''Pub.Slug'' \<noteq> []" by code_simp
  have same: "normalizePackId ''Pub.Slug'' = normalizePackId ''pub.slug''" by code_simp
  have t1: "trim ''Pub.Slug'' = ''Pub.Slug''" by code_simp
  have t2: "trim ''pub.slug'' = ''pub.slug''" by code_simp
  from validateCatalog_duplicate_packId [OF refl packs id1 id2 ne same ret]
  show ?thesis using ret unfolding t1 t2 by blast
qed

text \<open>C10: a catalog root that is not a JSON object gets exactly one issue, the
  root-shape error; an object root whose \<open>packs\<close> is not an array gets the
  \<open>schemaVersion\<close> and \<open>generatedAt\<close> findings followed by the packs-array error
  and nothing else, in either mode.\<close>

theorem validateCatalog_root_shape:
  "((\<forall>members. catalog \<noteq> JObj members) \<longrightarrow>
      validateCatalog h catalog strictMode =
        Inr [\<lparr>level = Error, message = ''Catalog root must be a JSON object.''\<rparr>]) \<and>
   (catalog = JObj members \<and> (\<forall>packs. map_of members ''packs'' \<noteq> Some (JArr packs)) \<longrightarrow>
      validateCatalog h catalog strictMode =
        Inr ((if notPositiveInteger (map_of members ''schemaVersion'')
              then [\<lparr>level = Error,
                     message = ''catalog.schemaVersion must be a positive integer.''\<rparr>]
              else []) @
             (case map_of members ''generatedAt'' of
                Some (JStr s) \<Rightarrow>
                  if trim s = []
                  then [\<lparr>level = Error,
                         message = ''catalog.generatedAt must be a non-empty string.''\<rparr>]
                  else if dateParses h s then []
                  else [\<lparr>level = Error,
                         message = ''catalog.generatedAt is not a parseable timestamp: '' @ s\<rparr>]
              | _ \<Rightarrow>
                  [\<lparr>level = Error,
                    message = ''catalog.generatedAt must be a non-empty string.''\<rparr>]) @
             [\<lparr>level = Error, message = ''catalog.packs must be an array.''\<rparr>]))"
proof (intro conjI impI)
  assume "\<forall>members. catalog \<noteq> JObj members"
  then have "notPlainObject catalog"
    by (cases catalog) (auto simp: notPlainObject_def)
  then show "validateCatalog h catalog strictMode =
      Inr [\<lparr>level = Error, message = ''Catalog root must be a JSON object.''\<rparr>]"
    by (simp add: validateCatalog.simps addIssue_def)
next
  assume a: "catalog = JObj members \<and> (\<forall>packs. map_of members ''packs'' \<noteq> Some (JArr packs))"
  then have np: "\<not> notPlainObject catalog" by (simp add: notPlainObject_def)
  have packs: "\<And>x. map_of members ''packs'' = Some x \<Longrightarrow> \<not> isArray x"
    using a by (case_tac x) auto
  show "validateCatalog h catalog strictMode =
        Inr ((if notPositiveInteger (map_of members ''schemaVersion'')
              then [\<lparr>level = Error,
                     message = ''catalog.schemaVersion must be a positive integer.''\<rparr>]
              else []) @
             (case map_of members ''generatedAt'' of
                Some (JStr s) \<Rightarrow>
                  if trim s = []
                  then [\<lparr>level = Error,
                         message = ''catalog.generatedAt must be a non-empty string.''\<rparr>]
                  else if dateParses h s then []
                  else [\<lparr>level = Error,
                         message = ''catalog.generatedAt is not a parseable timestamp: '' @ s\<rparr>]
              | _ \<Rightarrow>
                  [\<lparr>level = Error,
                    message = ''catalog.generatedAt must be a non-empty string.''\<rparr>]) @
             [\<lparr>level = Error, message = ''catalog.packs must be an array.''\<rparr>])"
    using a
    by (auto simp: validateCatalog.simps notPlainObject_def addIssue_def addIssueWhen_def
        split: option.splits json.splits)
qed

theorem validateCatalog_root_shape_witness:
  "validateCatalog sampleHost (JArr []) True =
     Inr [\<lparr>level = Error, message = ''Catalog root must be a JSON object.''\<rparr>] \<and>
   validateCatalog sampleHost JNull False =
     Inr [\<lparr>level = Error, message = ''Catalog root must be a JSON object.''\<rparr>] \<and>
   validateCatalog sampleHost
     (JObj [(''schemaVersion'', JNum (Integral 1)),
            (''generatedAt'', JStr ''2026-01-01T00:00:00Z''),
            (''packs'', JObj [])]) True =
     Inr [\<lparr>level = Error, message = ''catalog.packs must be an array.''\<rparr>]"
proof -
  let ?members = "[(''schemaVersion'', JNum (Integral 1)),
                   (''generatedAt'', JStr ''2026-01-01T00:00:00Z''),
                   (''packs'', JObj [])]"
  have t: "trim ''2026-01-01T00:00:00Z'' \<noteq> []" by code_simp
  have "validateCatalog sampleHost (JArr []) True =
     Inr [\<lparr>level = Error, message = ''Catalog root must be a JSON object.''\<rparr>]"
    using validateCatalog_root_shape [of "JArr []" sampleHost True] by simp
  moreover have "validateCatalog sampleHost JNull False =
     Inr [\<lparr>level = Error, message = ''Catalog root must be a JSON object.''\<rparr>]"
    using validateCatalog_root_shape [of JNull sampleHost False] by simp
  moreover have "validateCatalog sampleHost (JObj ?members) True =
     Inr [\<lparr>level = Error, message = ''catalog.packs must be an array.''\<rparr>]"
    using validateCatalog_root_shape [of "JObj ?members" sampleHost True ?members] t
    by (simp add: sampleHost_def)
  ultimately show ?thesis by blast
qed

text \<open>C2: \<open>validateCatalog\<close> should turn every bad input into an issue. A
  \<open>manifestUrl\<close> whose path holds a percent sign that starts no escape makes
  \<open>decodeURIComponent\<close> throw \<open>URIError\<close>, and nothing catches it.\<close>

theorem validateCatalog_throws:
  "validateCatalog sampleHost
     (JObj [(''schemaVersion'', JNum (Integral 1)),
            (''generatedAt'', JStr ''2026-01-01T00:00:00Z''),
            (''packs'', JArr
               [JObj [(''packId'', JStr ''pub.slug''), (''publisher'', JStr ''pub''),
                      (''slug'', JStr ''slug''), (''displayName'', JStr ''Pack''),
                      (''latestVersion'', JStr ''1.0.0''),
                      (''manifestUrl'', JStr
                         ''https://example.com/100%/packs/pub.slug/versions/1.0.0/manifest.v1.json'')]])])
     False = Inl URIError"
  by code_simp

subsection \<open>The pack validator\<close>

lemma addIssue_eq: "addIssue issues l m = issues @ [\<lparr>level = l, message = m\<rparr>]"
  by (simp add: addIssue_def)

lemma addIssueWhen_eq: "addIssueWhen c issues l m = issues @ issueWhen c l m"
  by (simp add: addIssueWhen_def addIssue_def issueWhen_def)

lemma set_issueWhen: "x \<in> set (issueWhen c l m) \<longleftrightarrow> c \<and> x = \<lparr>level = l, message = m\<rparr>"
  by (auto simp: issueWhen_def)

text \<open>C1: an unsafe reference is reported and kept out of \<open>referencedFiles\<close>, but the
  existence and hash check that follows runs on every reference with a \<open>file\<close> and a
  \<open>sha256\<close>, safe or not. The asset \<open>../../../../secret.txt\<close> leaves the version
  folder; \<open>validateManifestFile\<close> reports it as unsafe and then hashes the file it
  names: the mismatch finding appears when the declared digest differs from that of
  \<open>/repo/secret.txt\<close> and disappears when it agrees.\<close>

theorem validateManifestFile_hashes_unsafe_path:
  "validateManifestFile sampleHost
     (sampleFs (replicate 64 (CHR ''b'')) (samplePackJson ''1.0.0'')
        (sampleManifest (replicate 64 (CHR ''a''))
           [JObj [(''file'', JStr ''../../../../secret.txt''),
                  (''sha256'', JStr (replicate 64 (CHR ''0'')))]]) [])
     ''packs/pub.slug/versions/1.0.0'' ''packs/pub.slug/versions/1.0.0/manifest.v1.json''
     [] False =
   Inr ([\<lparr>level = Error,
          message = ''Unsafe referenced path in manifest (asset): ../../../../secret.txt''\<rparr>,
         \<lparr>level = Error,
          message = ''SHA256 mismatch for asset file: ../../../../secret.txt''\<rparr>],
        Some (sampleManifest (replicate 64 (CHR ''a''))
                [JObj [(''file'', JStr ''../../../../secret.txt''),
                       (''sha256'', JStr (replicate 64 (CHR ''0'')))]])) \<and>
   validateManifestFile sampleHost
     (sampleFs (replicate 64 (CHR ''0'')) (samplePackJson ''1.0.0'')
        (sampleManifest (replicate 64 (CHR ''a''))
           [JObj [(''file'', JStr ''../../../../secret.txt''),
                  (''sha256'', JStr (replicate 64 (CHR ''0'')))]]) [])
     ''packs/pub.slug/versions/1.0.0'' ''packs/pub.slug/versions/1.0.0/manifest.v1.json''
     [] False =
   Inr ([\<lparr>level = Error,
          message = ''Unsafe referenced path in manifest (asset): ../../../../secret.txt''\<rparr>],
        Some (sampleManifest (replicate 64 (CHR ''a''))
                [JObj [(''file'', JStr ''../../../../secret.txt''),
                       (''sha256'', JStr (replicate 64 (CHR ''0'')))]]))"
  by code_simp



text \<open>The same on a whole manifest: the profile's declared digest is wrong, and the
  validation reports that and nothing else.\<close>

lemma manifest_hash_mismatch_example:
  "validateManifestFile sampleHost
     (sampleFs (replicate 64 (CHR ''b'')) (samplePackJson ''1.0.0'')
        (sampleManifest (replicate 64 (CHR ''b'')) []) [])
     ''packs/pub.slug/versions/1.0.0'' ''packs/pub.slug/versions/1.0.0/manifest.v1.json''
     [] False =
   Inr ([\<lparr>level = Error, message = ''SHA256 mismatch for profile file: profile.json''\<rparr>],
        Some (sampleManifest (replicate 64 (CHR ''b'')) []))"
  by code_simp







lemma forEachIndexed_append:
  "forEachIndexed body k (xs @ ys) st =
     forEachIndexed body (k + length xs) ys (forEachIndexed body k xs st)"
  by (induction xs arbitrary: k st) auto

lemma validateCommandShape_append:
  "validateCommandShape c issues pfx = issues @ validateCommandShape c [] pfx"
  unfolding validateCommandShape_def Let_def
  by (simp add: addIssue_eq addIssueWhen_eq split: option.splits)

lemma profileCommand_mono:
  "set (pIssues st) \<subseteq> set (pIssues (profileCommand p k c st)) \<and>
   commandIds st \<subseteq> commandIds (profileCommand p k c st) \<and>
   seenIds st \<subseteq> seenIds (profileCommand p k c st)"
  unfolding profileCommand_def Let_def
  by (subst (1 2 3) validateCommandShape_append)
     (auto simp: addIssueWhen_eq split: option.splits)

lemma profileLoop_mono:
  "set (pIssues st) \<subseteq> set (pIssues (forEachIndexed (profileCommand p) k cs st)) \<and>
   commandIds st \<subseteq> commandIds (forEachIndexed (profileCommand p) k cs st) \<and>
   seenIds st \<subseteq> seenIds (forEachIndexed (profileCommand p) k cs st)"
proof (induction cs arbitrary: k st)
  case Nil
  show ?case by simp
next
  case (Cons c cs)
  show ?case
    using profileCommand_mono [of st p k c]
      Cons.IH [where k = "Suc k" and st = "profileCommand p k c st"]
    by auto
qed


lemma profileCommand_id:
  assumes "map_of c ''id'' = Some (JStr ident)"
  shows "profileCommand p k (JObj c) st =
     \<lparr>pIssues = validateCommandShape (JObj c) (pIssues st) (basename p @ ''['' @ showNat k @ '']'')
                 @ issueWhen (ident \<in> seenIds st) Error
                     (''Duplicate command id in profile: '' @ ident),
      commandIds = (if isUuid ident then insert ident (commandIds st) else commandIds st),
      seenIds = insert ident (seenIds st)\<rparr>"
  using assms by (simp add: profileCommand_def Let_def stringProp_def addIssueWhen_eq)

lemma profileLoop_duplicate:
  assumes "i < j" "j < length commands"
    and "commands ! i = JObj ci" "commands ! j = JObj cj"
    and "map_of ci ''id'' = Some (JStr ident)" "map_of cj ''id'' = Some (JStr ident)"
    and "isUuid ident"
  shows "\<lparr>level = Error, message = ''Duplicate command id in profile: '' @ ident\<rparr>
           \<in> set (pIssues (forEachIndexed (profileCommand p) k commands st)) \<and>
         ident \<in> commandIds (forEachIndexed (profileCommand p) k commands st)"
proof -
  define xs where "xs = take i commands"
  define ys where "ys = take (j - Suc i) (drop (Suc i) commands)"
  define zs where "zs = drop (Suc j) commands"
  have split: "commands = xs @ JObj ci # ys @ JObj cj # zs"
  proof -
    have "commands = take i commands @ commands ! i # drop (Suc i) commands"
      using assms(1,2) by (simp add: id_take_nth_drop)
    moreover have "drop (Suc i) commands =
        take (j - Suc i) (drop (Suc i) commands) @ drop (Suc i) commands ! (j - Suc i) #
        drop (Suc (j - Suc i)) (drop (Suc i) commands)"
      using assms(1,2) by (intro id_take_nth_drop) simp
    moreover have "drop (Suc i) commands ! (j - Suc i) = commands ! j"
      using assms(1,2) by simp
    moreover have "drop (Suc (j - Suc i)) (drop (Suc i) commands) = drop (Suc j) commands"
      using assms(1,2) by simp
    ultimately show ?thesis using assms(3,4) by (simp add: xs_def ys_def zs_def)
  qed
  define s1 where "s1 = forEachIndexed (profileCommand p) k xs st"
  define s2 where "s2 = profileCommand p (k + length xs) (JObj ci) s1"
  define s3 where "s3 = forEachIndexed (profileCommand p) (Suc (k + length xs)) ys s2"
  define s4 where "s4 = profileCommand p (Suc (k + length xs) + length ys) (JObj cj) s3"
  define s5 where "s5 = forEachIndexed (profileCommand p) (Suc (Suc (k + length xs) + length ys)) zs s4"
  have run: "forEachIndexed (profileCommand p) k commands st = s5"
    unfolding split s5_def s4_def s3_def s2_def s1_def
    by (simp add: forEachIndexed_append)
  have a2: "ident \<in> seenIds s2 \<and> ident \<in> commandIds s2"
    unfolding s2_def by (simp add: profileCommand_id [OF assms(5)] assms(7))
  have a3: "ident \<in> seenIds s3 \<and> ident \<in> commandIds s3"
    using a2 profileLoop_mono [of s2 p "Suc (k + length xs)" ys] unfolding s3_def by auto
  have a4: "\<lparr>level = Error, message = ''Duplicate command id in profile: '' @ ident\<rparr>
              \<in> set (pIssues s4) \<and> ident \<in> commandIds s4"
    unfolding s4_def using a3 by (simp add: profileCommand_id [OF assms(6)] issueWhen_def)
  show ?thesis
    unfolding run s5_def
    using a4 profileLoop_mono [of s4 p "Suc (Suc (k + length xs) + length ys)" zs] by auto
qed

lemma checkGraphLink_append:
  "checkGraphLink fs versionDir cmdIds issues graph =
     issues @ checkGraphLink fs versionDir cmdIds [] graph"
  unfolding checkGraphLink_def Let_def
  by (simp add: addIssue_eq addIssueWhen_eq split: option.splits)

text \<open>C9: two commands of a profile with the same valid UUID id give a
  duplicate-command-id error, the id is in the returned command-id set all the same, and
  a graph whose \<open>commandId\<close> is that id gets no "not found in profile" error.\<close>

theorem validateProfile_duplicate_id:
  assumes "readJson fs profilePath = Some (JArr commands)"
    and "i < j" and "j < length commands"
    and "commands ! i = JObj ci" and "commands ! j = JObj cj"
    and "map_of ci ''id'' = Some (JStr ident)" and "map_of cj ''id'' = Some (JStr ident)"
    and "isUuid ident"
  shows "\<lparr>level = Error, message = ''Duplicate command id in profile: '' @ ident\<rparr>
           \<in> set (fst (validateProfile fs profilePath issues)) \<and>
         ident \<in> snd (validateProfile fs profilePath issues) \<and>
         (\<forall>graph issues'. uuidString (getProp graph ''commandId'') = Some ident \<longrightarrow>
            (\<exists>new. checkGraphLink fs versionDir (snd (validateProfile fs profilePath issues))
                      issues' graph = issues' @ new \<and>
                   \<lparr>level = Error,
                    message = ''Graph commandId not found in profile: '' @ ident\<rparr> \<notin> set new))"
proof -
  let ?st = "forEachIndexed (profileCommand profilePath) 0 commands
               \<lparr>pIssues = issues, commandIds = {}, seenIds = {}\<rparr>"
  have vp: "validateProfile fs profilePath issues = (pIssues ?st, commandIds ?st)"
    using assms(1) by (simp add: validateProfile_def Let_def)
  have dup: "\<lparr>level = Error, message = ''Duplicate command id in profile: '' @ ident\<rparr>
           \<in> set (pIssues ?st) \<and> ident \<in> commandIds ?st"
    using assms(2-8) by (rule profileLoop_duplicate)
  have link: "\<lparr>level = Error, message = ''Graph commandId not found in profile: '' @ ident\<rparr>
           \<notin> set (checkGraphLink fs versionDir (commandIds ?st) [] graph)"
    if "uuidString (getProp graph ''commandId'') = Some ident" for graph
    using that dup unfolding checkGraphLink_def Let_def
    by (auto simp: addIssue_eq addIssueWhen_eq issueWhen_def split: option.splits)
  show ?thesis
    unfolding vp fst_conv snd_conv
    using dup link checkGraphLink_append [of fs versionDir "commandIds ?st"] by blast
qed

theorem validateProfile_duplicate_id_witness:
  "\<lparr>level = Error,
    message = ''Duplicate command id in profile: 123e4567-e89b-12d3-a456-426614174000''\<rparr>
     \<in> set (fst (validateProfile
          (sampleFs [] JNull JNull
             [(''dup.json'', File [] (Some (JArr
                [JObj [(''id'', JStr ''123e4567-e89b-12d3-a456-426614174000'')],
                 JObj [(''id'', JStr ''123e4567-e89b-12d3-a456-426614174000'')]])))])
          ''packs/pub.slug/versions/1.0.0/dup.json'' [])) \<and>
   ''123e4567-e89b-12d3-a456-426614174000''
     \<in> snd (validateProfile
          (sampleFs [] JNull JNull
             [(''dup.json'', File [] (Some (JArr
                [JObj [(''id'', JStr ''123e4567-e89b-12d3-a456-426614174000'')],
                 JObj [(''id'', JStr ''123e4567-e89b-12d3-a456-426614174000'')]])))])
          ''packs/pub.slug/versions/1.0.0/dup.json'' []) \<and>
   (\<exists>new.
      checkGraphLink
        (sampleFs [] JNull JNull
             [(''dup.json'', File [] (Some (JArr
                [JObj [(''id'', JStr ''123e4567-e89b-12d3-a456-426614174000'')],
                 JObj [(''id'', JStr ''123e4567-e89b-12d3-a456-426614174000'')]])))])
        ''packs/pub.slug/versions/1.0.0''
        (snd (validateProfile
          (sampleFs [] JNull JNull
             [(''dup.json'', File [] (Some (JArr
                [JObj [(''id'', JStr ''123e4567-e89b-12d3-a456-426614174000'')],
                 JObj [(''id'', JStr ''123e4567-e89b-12d3-a456-426614174000'')]])))])
          ''packs/pub.slug/versions/1.0.0/dup.json'' []))
        [] (JObj [(''commandId'', JStr ''123e4567-e89b-12d3-a456-426614174000'')]) = [] @ new \<and>
      \<lparr>level = Error,
       message = ''Graph commandId not found in profile: 123e4567-e89b-12d3-a456-426614174000''\<rparr>
        \<notin> set new)"
proof -
  let ?id = "''123e4567-e89b-12d3-a456-426614174000''"
  let ?c = "[(''id'', JStr ?id)]"
  let ?fs = "sampleFs [] JNull JNull [(''dup.json'', File [] (Some (JArr [JObj ?c, JObj ?c])))]"
  let ?p = "''packs/pub.slug/versions/1.0.0/dup.json''"
  have h1: "readJson ?fs ?p = Some (JArr [JObj ?c, JObj ?c])" by code_simp
  have h2: "(0::nat) < 1" by simp
  have h3: "1 < length [JObj ?c, JObj ?c]" by simp
  have h4: "[JObj ?c, JObj ?c] ! 0 = JObj ?c" by simp
  have h5: "[JObj ?c, JObj ?c] ! 1 = JObj ?c" by simp
  have h6: "map_of ?c ''id'' = Some (JStr ?id)" by simp
  have h8: "isUuid ?id" by code_simp
  have g: "uuidString (getProp (JObj [(''commandId'', JStr ?id)]) ''commandId'') = Some ?id"
    using h8 by simp
  note inst = validateProfile_duplicate_id [OF h1 h2 h3 h4 h5 h6 h6 h8, of "[]"
      "''packs/pub.slug/versions/1.0.0''"]
  from inst have a: "\<lparr>level = Error, message = ''Duplicate command id in profile: '' @ ?id\<rparr>
     \<in> set (fst (validateProfile ?fs ?p []))" by (rule conjunct1)
  from inst have b: "?id \<in> snd (validateProfile ?fs ?p [])" by blast
  from inst g have c: "\<exists>new.
      checkGraphLink ?fs ''packs/pub.slug/versions/1.0.0'' (snd (validateProfile ?fs ?p []))
        [] (JObj [(''commandId'', JStr ?id)]) = [] @ new \<and>
      \<lparr>level = Error, message = ''Graph commandId not found in profile: '' @ ?id\<rparr>
        \<notin> set new" by blast
  have m1: "''Duplicate command id in profile: '' @ ?id =
            ''Duplicate command id in profile: 123e4567-e89b-12d3-a456-426614174000''" by simp
  have m2: "''Graph commandId not found in profile: '' @ ?id =
            ''Graph commandId not found in profile: 123e4567-e89b-12d3-a456-426614174000''"
    by simp
  show ?thesis using a b c unfolding m1 m2 by (intro conjI)
qed

lemma greatest_mem: "greatest mx rest \<in> set (mx # rest)"
  by (induction rest arbitrary: mx) (auto split: option.splits)







end
